theory Spec2Isabelle
  imports Main
begin

section \<open>Conventions\<close>

text \<open>
  This theory embeds the WhatsApp ingestion path of the CRM:
  \<^verbatim>\<open>src/app/api/webhooks/whatsapp/route.ts\<close> (the webhook route) and
  \<^verbatim>\<open>src/lib/whatsapp/webhook-handler.ts\<close> (the ingestion pipeline), read against the
  tables of \<^verbatim>\<open>supabase/migrations/001_crm_schema.sql\<close>.

  A JavaScript string is a \<^typ>\<open>string\<close>; one \<^typ>\<open>char\<close> stands for one code unit.
  A value that may be \<^verbatim>\<open>undefined\<close> or \<^verbatim>\<open>null\<close> is an \<^typ>\<open>'a option\<close>.
  An exception is a value of a sum's left side: a function that may throw returns
  \<open>error + 'a\<close>.
\<close>

text \<open>JavaScript truthiness of a possibly missing string: \<^verbatim>\<open>undefined\<close>, \<^verbatim>\<open>null\<close> and
  the empty string are falsy.\<close>

fun truthy :: "string option \<Rightarrow> bool" where
  "truthy None = False"
| "truthy (Some s) = (s \<noteq> [])"

text \<open>\<^verbatim>\<open>x || null\<close> on a possibly missing string.\<close>

fun or_null :: "string option \<Rightarrow> string option" where
  "or_null None = None"
| "or_null (Some s) = (if s = [] then None else Some s)"

text \<open>\<^verbatim>\<open>Array.prototype.join\<close>.\<close>

fun join :: "string \<Rightarrow> string list \<Rightarrow> string" where
  "join sep [] = []"
| "join sep [x] = x"
| "join sep (x # y # ys) = x @ sep @ join sep (y # ys)"


section \<open>The webhook route: signature verification\<close>

text \<open>
  \<^verbatim>\<open>Buffer.from(s)\<close> encodes a string as UTF-8. A header value is a byte string, so its
  code units are below 256: one below 128 is one byte, any other is two bytes.
\<close>

definition utf8_unit :: "char \<Rightarrow> nat list" where
  "utf8_unit c =
     (let n = (of_char c :: nat)
      in if n < 128 then [n] else [192 + n div 64, 128 + n mod 64])"

definition Buffer_from :: "string \<Rightarrow> nat list" where
  "Buffer_from s = concat (map utf8_unit s)"

text \<open>Node's \<^verbatim>\<open>crypto.timingSafeEqual\<close>: it throws when the byte lengths differ.\<close>

datatype crypto_error = ERR_CRYPTO_TIMING_SAFE_EQUAL_LENGTH

definition crypto_timingSafeEqual :: "nat list \<Rightarrow> nat list \<Rightarrow> crypto_error + bool" where
  "crypto_timingSafeEqual x y =
     (if length x \<noteq> length y then Inl ERR_CRYPTO_TIMING_SAFE_EQUAL_LENGTH else Inr (x = y))"

text \<open>
  \<^verbatim>\<open>timingSafeEqual(a, b)\<close> of the route. On a length mismatch the dummy comparison of
  \<open>a\<close> with itself is made and its result dropped; otherwise the buffers are
  compared, and an exception of the comparison falls back to \<^verbatim>\<open>a === b\<close>.
\<close>

definition timingSafeEqual :: "string \<Rightarrow> string \<Rightarrow> bool" where
  "timingSafeEqual a b =
     (if length a \<noteq> length b then
        (let bufA = Buffer_from a; bufB = Buffer_from a;
             ignored = crypto_timingSafeEqual bufA bufB
         in False)
      else
        (let bufA = Buffer_from a; bufB = Buffer_from b
         in case crypto_timingSafeEqual bufA bufB of
              Inl e \<Rightarrow> (a = b)
            | Inr r \<Rightarrow> r))"

text \<open>
  The outcome of one \<^verbatim>\<open>POST\<close>: the HTTP status, the \<^verbatim>\<open>error\<close> text of the JSON body
  (none on success), and the payload handed to \<^verbatim>\<open>processWebhookPayload\<close>, if any.
\<close>

record 'p post_outcome =
  http_status :: nat
  http_error :: "string option"
  dispatched :: "'p option"

text \<open>
  \<^verbatim>\<open>POST(request)\<close>. The hex HMAC-SHA256 (\<^verbatim>\<open>createHmac('sha256', secret).update(body).digest('hex')\<close>)
  and \<^verbatim>\<open>JSON.parse\<close> (\<open>None\<close> when it throws) are library functions and are parameters.
  \<open>appSecret\<close> is \<^verbatim>\<open>process.env.WHATSAPP_APP_SECRET\<close>, \<open>signature\<close> the
  \<^verbatim>\<open>x-hub-signature-256\<close> header, \<open>body\<close> the raw request text.
\<close>

definition POST ::
  "(string \<Rightarrow> string \<Rightarrow> string) \<Rightarrow> (string \<Rightarrow> 'p option) \<Rightarrow>
   string option \<Rightarrow> string option \<Rightarrow> string \<Rightarrow> 'p post_outcome" where
  "POST hmac_hex JSON_parse appSecret signature body =
     (if \<not> truthy appSecret then
        \<lparr>http_status = 500, http_error = Some ''Server configuration error'', dispatched = None\<rparr>
      else if \<not> truthy signature then
        \<lparr>http_status = 401, http_error = Some ''Missing signature'', dispatched = None\<rparr>
      else
        (case (appSecret, signature) of
           (Some secret, Some sig) \<Rightarrow>
             (let expectedSignature = ''sha256='' @ hmac_hex secret body
              in if \<not> timingSafeEqual sig expectedSignature then
                   \<lparr>http_status = 401, http_error = Some ''Invalid signature'', dispatched = None\<rparr>
                 else
                   (case JSON_parse body of
                      None \<Rightarrow>
                        \<lparr>http_status = 400, http_error = Some ''Invalid JSON'', dispatched = None\<rparr>
                    | Some payload \<Rightarrow>
                        \<lparr>http_status = 200, http_error = None, dispatched = Some payload\<rparr>))
         | _ \<Rightarrow>
             \<lparr>http_status = 500, http_error = Some ''Server configuration error'', dispatched = None\<rparr>))"


section \<open>Content extraction\<close>

text \<open>\<^verbatim>\<open>MESSAGE_TYPES\<close> of \<^verbatim>\<open>types/database.ts\<close>, with the string each constant stands for.\<close>

datatype message_type =
  MT_text | MT_image | MT_audio | MT_video | MT_document | MT_template
| MT_location | MT_sticker | MT_reaction | MT_internal_note

fun message_type_name :: "message_type \<Rightarrow> string" where
  "message_type_name MT_text = ''text''"
| "message_type_name MT_image = ''image''"
| "message_type_name MT_audio = ''audio''"
| "message_type_name MT_video = ''video''"
| "message_type_name MT_document = ''document''"
| "message_type_name MT_template = ''template''"
| "message_type_name MT_location = ''location''"
| "message_type_name MT_sticker = ''sticker''"
| "message_type_name MT_reaction = ''reaction''"
| "message_type_name MT_internal_note = ''internal_note''"

text \<open>
  The provider's message object (\<^verbatim>\<open>WhatsAppMessage\<close> of \<^verbatim>\<open>types/whatsapp.ts\<close>). The
  handler reads it as \<^verbatim>\<open>any\<close> through optional chaining, so every nested object and
  every field of one may be missing; the type tag is a string, as the provider's types
  declare it. A number of the location object is kept as the
  literal that \<^verbatim>\<open>JSON.stringify\<close> prints for it (floating point is not modelled);
  \<open>msg_timestamp\<close> is \<^verbatim>\<open>parseInt(message.timestamp)\<close>, \<open>None\<close> when that is \<^verbatim>\<open>NaN\<close>.
\<close>

record wa_media =
  media_id :: "string option"
  media_mime_type :: "string option"
  media_caption :: "string option"
  media_filename :: "string option"

record wa_location =
  loc_latitude :: "string option"
  loc_longitude :: "string option"
  loc_name :: "string option"
  loc_address :: "string option"

record wa_message =
  msg_from :: string
  msg_id :: "string option"
  msg_timestamp :: "int option"
  msg_type :: string
  msg_text_body :: "string option"
  msg_image :: "wa_media option"
  msg_audio :: "wa_media option"
  msg_video :: "wa_media option"
  msg_document :: "wa_media option"
  msg_sticker :: "wa_media option"
  msg_location :: "wa_location option"
  msg_reaction_emoji :: "string option"

text \<open>\<^verbatim>\<open>obj?.field\<close>: missing when the object is.\<close>

definition opt_field :: "'a option \<Rightarrow> ('a \<Rightarrow> 'b option) \<Rightarrow> 'b option" where
  "opt_field obj field = (case obj of None \<Rightarrow> None | Some x \<Rightarrow> field x)"

text \<open>The decimal and the lower-case hexadecimal digit of a number.\<close>

definition digit_char :: "nat \<Rightarrow> char" where
  "digit_char n = ''0123456789'' ! min n 9"

definition hex_digit :: "nat \<Rightarrow> char" where
  "hex_digit n = ''0123456789abcdef'' ! min n 15"

text \<open>
  \<^verbatim>\<open>JSON.stringify\<close> of a string: quotes around it, with the quote, the backslash and
  the control characters escaped.
\<close>

definition json_escape_char :: "char \<Rightarrow> string" where
  "json_escape_char c =
     (let n = (of_char c :: nat)
      in if n = 0x22 then [CHR 0x5C, CHR 0x22]
         else if n = 0x5C then [CHR 0x5C, CHR 0x5C]
         else if n = 0x08 then [CHR 0x5C, CHR ''b'']
         else if n = 0x0C then [CHR 0x5C, CHR ''f'']
         else if n = 0x0A then [CHR 0x5C, CHR ''n'']
         else if n = 0x0D then [CHR 0x5C, CHR ''r'']
         else if n = 0x09 then [CHR 0x5C, CHR ''t'']
         else if n < 0x20 then
           [CHR 0x5C, CHR ''u'', CHR ''0'', CHR ''0'', hex_digit (n div 16), hex_digit (n mod 16)]
         else [c])"

definition JSON_stringify_string :: "string \<Rightarrow> string" where
  "JSON_stringify_string s = [CHR 0x22] @ concat (map json_escape_char s) @ [CHR 0x22]"

text \<open>
  \<^verbatim>\<open>JSON.stringify\<close> of an object literal whose members are given in order, each with
  its value already serialised; a member whose value is \<^verbatim>\<open>undefined\<close> is left out.
\<close>

fun json_members :: "(string \<times> string option) list \<Rightarrow> string list" where
  "json_members [] = []"
| "json_members ((k, None) # kvs) = json_members kvs"
| "json_members ((k, Some v) # kvs) = (JSON_stringify_string k @ '':'' @ v) # json_members kvs"

definition JSON_stringify_object :: "(string \<times> string option) list \<Rightarrow> string" where
  "JSON_stringify_object kvs = ''{'' @ join '','' (json_members kvs) @ ''}''"

text \<open>The result of \<^verbatim>\<open>extractMessageContent\<close>.\<close>

record extracted =
  messageType :: message_type
  content :: "string option"
  mediaId :: "string option"
  mimeType :: "string option"
  filename :: "string option"

definition known_types :: "string list" where
  "known_types =
     [''text'', ''image'', ''audio'', ''video'', ''document'', ''sticker'', ''location'',
      ''reaction'']"

definition extractMessageContent :: "wa_message \<Rightarrow> extracted" where
  "extractMessageContent message =
     (let type = msg_type message
      in if type = ''text'' then
           \<lparr>messageType = MT_text,
            content = or_null (msg_text_body message),
            mediaId = None, mimeType = None, filename = None\<rparr>
         else if type = ''image'' then
           \<lparr>messageType = MT_image,
            content = or_null (opt_field (msg_image message) media_caption),
            mediaId = or_null (opt_field (msg_image message) media_id),
            mimeType = or_null (opt_field (msg_image message) media_mime_type),
            filename = None\<rparr>
         else if type = ''audio'' then
           \<lparr>messageType = MT_audio,
            content = None,
            mediaId = or_null (opt_field (msg_audio message) media_id),
            mimeType = or_null (opt_field (msg_audio message) media_mime_type),
            filename = None\<rparr>
         else if type = ''video'' then
           \<lparr>messageType = MT_video,
            content = or_null (opt_field (msg_video message) media_caption),
            mediaId = or_null (opt_field (msg_video message) media_id),
            mimeType = or_null (opt_field (msg_video message) media_mime_type),
            filename = None\<rparr>
         else if type = ''document'' then
           \<lparr>messageType = MT_document,
            content = or_null (opt_field (msg_document message) media_caption),
            mediaId = or_null (opt_field (msg_document message) media_id),
            mimeType = or_null (opt_field (msg_document message) media_mime_type),
            filename = or_null (opt_field (msg_document message) media_filename)\<rparr>
         else if type = ''sticker'' then
           \<lparr>messageType = MT_sticker,
            content = None,
            mediaId = or_null (opt_field (msg_sticker message) media_id),
            mimeType = or_null (opt_field (msg_sticker message) media_mime_type),
            filename = None\<rparr>
         else if type = ''location'' then
           \<lparr>messageType = MT_location,
            content = Some (JSON_stringify_object
              [(''latitude'', opt_field (msg_location message) loc_latitude),
               (''longitude'', opt_field (msg_location message) loc_longitude),
               (''name'', map_option JSON_stringify_string
                            (opt_field (msg_location message) loc_name)),
               (''address'', map_option JSON_stringify_string
                               (opt_field (msg_location message) loc_address))]),
            mediaId = None, mimeType = None, filename = None\<rparr>
         else if type = ''reaction'' then
           \<lparr>messageType = MT_reaction,
            content = or_null (msg_reaction_emoji message),
            mediaId = None, mimeType = None, filename = None\<rparr>
         else
           \<lparr>messageType = MT_text,
            content = Some (''[Unsupported message type: '' @ type @ '']''),
            mediaId = None, mimeType = None, filename = None\<rparr>)"

text \<open>\<^verbatim>\<open>buildMessagePreview\<close>, the one-line text shown in the conversation list.\<close>

definition buildMessagePreview :: "message_type \<Rightarrow> string option \<Rightarrow> string" where
  "buildMessagePreview mt c =
     (case mt of
        MT_text \<Rightarrow>
          (case or_null c of
             None \<Rightarrow> []
           | Some t \<Rightarrow> if length t > 100 then take 100 t @ ''...'' else t)
      | MT_image \<Rightarrow> (case or_null c of None \<Rightarrow> ''[Imagem]'' | Some t \<Rightarrow> ''[Imagem] '' @ t)
      | MT_audio \<Rightarrow> ''[Audio]''
      | MT_video \<Rightarrow> (case or_null c of None \<Rightarrow> ''[Video]'' | Some t \<Rightarrow> ''[Video] '' @ t)
      | MT_document \<Rightarrow>
          (case or_null c of None \<Rightarrow> ''[Documento]'' | Some t \<Rightarrow> ''[Documento] '' @ t)
      | MT_sticker \<Rightarrow> ''[Sticker]''
      | MT_location \<Rightarrow> ''[Localiza'' @ [CHR 0xE7, CHR 0xE3] @ ''o]''
      | MT_reaction \<Rightarrow> (case or_null c of None \<Rightarrow> ''[Rea'' @ [CHR 0xE7, CHR 0xE3] @ ''o]'' | Some t \<Rightarrow> t)
      | _ \<Rightarrow> (case or_null c of None \<Rightarrow> [] | Some t \<Rightarrow> t))"


section \<open>The store\<close>

text \<open>
  The tables of \<^verbatim>\<open>001_crm_schema.sql\<close> that the pipeline reads and writes, with the columns
  it touches. A \<^verbatim>\<open>uuid\<close> is a natural number; the store hands out the next unused one
  for \<^verbatim>\<open>gen_random_uuid()\<close>. A \<^verbatim>\<open>timestamptz\<close> is a number of milliseconds.
\<close>

type_synonym uuid = nat

datatype user_role = R_owner | R_admin | R_agent

datatype user_status = US_online | US_offline | US_away | US_busy

datatype conversation_status = CS_pending | CS_open | CS_waiting | CS_resolved | CS_closed

datatype sender_type = ST_contact | ST_agent | ST_system | ST_bot

datatype message_status = MS_pending | MS_sent | MS_delivered | MS_read | MS_failed

text \<open>\<^verbatim>\<open>MESSAGE_STATUSES\<close> of \<^verbatim>\<open>types/database.ts\<close>.\<close>

fun message_status_name :: "message_status \<Rightarrow> string" where
  "message_status_name MS_pending = ''pending''"
| "message_status_name MS_sent = ''sent''"
| "message_status_name MS_delivered = ''delivered''"
| "message_status_name MS_read = ''read''"
| "message_status_name MS_failed = ''failed''"

record organization =
  org_id :: uuid
  whatsapp_phone_number_id :: "string option"
  whatsapp_access_token :: "string option"
  auto_reply_message :: "string option"

record crm_user =
  u_id :: uuid
  u_org_id :: uuid
  u_display_name :: string
  u_role :: user_role
  u_queue :: string
  u_status :: user_status
  u_max_concurrent_chats :: int

record contact =
  ct_id :: uuid
  ct_org_id :: uuid
  ct_phone :: string
  ct_name :: "string option"
  ct_profile_picture_url :: "string option"
  ct_custom_fields :: "(string \<times> string) list"
  ct_tags :: "string list"
  ct_updated_at :: int

record conversation =
  cv_id :: uuid
  cv_org_id :: uuid
  cv_contact_id :: uuid
  cv_assigned_agent_id :: "uuid option"
  cv_queue :: "string option"
  cv_status :: conversation_status
  cv_is_bot_active :: bool
  cv_protocol_number :: "string option"
  cv_last_message_at :: "int option"
  cv_last_message_preview :: "string option"
  cv_unread_count :: int
  cv_created_at :: int
  cv_updated_at :: int

record message =
  m_id :: uuid
  m_conversation_id :: uuid
  m_sender_type :: sender_type
  m_sender_id :: "uuid option"
  m_message_type :: message_type
  m_content :: "string option"
  m_media_url :: "string option"
  m_media_mime_type :: "string option"
  m_media_filename :: "string option"
  m_whatsapp_message_id :: "string option"
  m_status :: message_status
  m_error_message :: "string option"
  m_reply_to_message_id :: "uuid option"
  m_created_at :: int

datatype detail = D_text string | D_uuid uuid

record protocol_log_entry =
  pl_org_id :: uuid
  pl_conversation_id :: uuid
  pl_protocol_number :: string
  pl_action :: string
  pl_agent_id :: "uuid option"
  pl_details :: "(string \<times> detail) list"

record activity_log_entry =
  al_org_id :: uuid
  al_agent_id :: uuid
  al_activity_type :: string
  al_details :: "(string \<times> detail) list"

record store =
  organizations :: "organization list"
  users :: "crm_user list"
  contacts :: "contact list"
  conversations :: "conversation list"
  messages :: "message list"
  protocol_log :: "protocol_log_entry list"
  agent_activity_log :: "activity_log_entry list"
  next_uuid :: uuid

text \<open>
  Every call to the store returns \<^verbatim>\<open>{ data, error }\<close>. The model knows three errors:
  \<^verbatim>\<open>.single()\<close> on a result that is not exactly one row, the violation of one of the
  schema's \<^verbatim>\<open>UNIQUE\<close> constraints, and a rejection for any other reason (the transport,
  a constraint the model does not track). The last kind is chosen from outside: \<open>F\<close> is the
  set of call sites whose call is rejected, and a rejected call changes nothing.
\<close>

datatype db_error = PGRST116 | UniqueViolation string | Rejected

datatype call_site =
  Q_find_contact | Q_update_contact | Q_insert_contact
| Q_find_conversation | Q_insert_conversation | Q_insert_protocol_log
| Q_insert_message | Q_update_conversation
| Q_select_agents | Q_count_conversations uuid | Q_assign_conversation
| Q_select_protocol_number | Q_insert_activity_log
| Q_update_message

datatype exn = RangeError | Error string db_error

definition single :: "'a list \<Rightarrow> db_error + 'a" where
  "single rows = (case rows of [r] \<Rightarrow> Inr r | _ \<Rightarrow> Inl PGRST116)"

text \<open>
  What the running process reads from outside the store: the clock (\<^verbatim>\<open>new Date()\<close>, as
  milliseconds and as the UTC calendar date it prints), the value of
  \<^verbatim>\<open>Math.floor(Math.random() * 99999)\<close>, the environment's access token, and the
  outcome of \<^verbatim>\<open>uploadMediaToSupabase\<close> for a media id (public URL and MIME type, or
  \<open>None\<close> when it throws).
\<close>

record env =
  env_now :: int
  env_date :: "nat \<times> nat \<times> nat"
  env_random :: nat
  env_access_token :: "string option"
  env_upload :: "string \<Rightarrow> (string \<times> string) option"


section \<open>Protocol numbers\<close>

text \<open>\<^verbatim>\<open>Number.prototype.toString\<close> on a natural number.\<close>

fun decimal :: "nat \<Rightarrow> string" where
  "decimal n = (if n < 10 then [digit_char n] else decimal (n div 10) @ [digit_char (n mod 10)])"

declare decimal.simps [simp del]

definition padStart :: "nat \<Rightarrow> char \<Rightarrow> string \<Rightarrow> string" where
  "padStart n c t = replicate (n - length t) c @ t"

text \<open>
  \<^verbatim>\<open>date.toISOString().slice(0, 10).replace(/-/g, '')\<close> for the UTC date \<open>(y, m, d)\<close>. The
  ISO text starts \<^verbatim>\<open>YYYY-MM-DD\<close> for a year up to 9999 and \<^verbatim>\<open>+YYYYYY-MM-DD\<close> beyond, of
  which the first ten characters are kept.
\<close>

definition dateStr :: "nat \<times> nat \<times> nat \<Rightarrow> string" where
  "dateStr ymd =
     (case ymd of (y, m, d) \<Rightarrow>
        if y \<le> 9999 then
          padStart 4 CHR ''0'' (decimal y) @ padStart 2 CHR ''0'' (decimal m)
            @ padStart 2 CHR ''0'' (decimal d)
        else ''+'' @ padStart 6 CHR ''0'' (decimal y) @ padStart 2 CHR ''0'' (decimal m))"

text \<open>
  \<^verbatim>\<open>generateProtocolNumber()\<close>; \<open>r\<close> is the value of \<^verbatim>\<open>Math.floor(Math.random() * 99999)\<close>,
  a number from 0 to 99998.
\<close>

definition generateProtocolNumber :: "nat \<times> nat \<times> nat \<Rightarrow> nat \<Rightarrow> string" where
  "generateProtocolNumber ymd r =
     (let dateStr = dateStr ymd;
          random = padStart 5 CHR ''0'' (decimal r)
      in dateStr @ ''-'' @ random)"


section \<open>Contact resolution\<close>

definition find_contact :: "call_site set \<Rightarrow> store \<Rightarrow> uuid \<Rightarrow> string \<Rightarrow> db_error + contact" where
  "find_contact F s orgId phone =
     (if Q_find_contact \<in> F then Inl Rejected
      else single (filter (\<lambda>c. ct_org_id c = orgId \<and> ct_phone c = phone) (contacts s)))"

text \<open>\<^verbatim>\<open>update(updates).eq('id', id).select().single()\<close> on \<^verbatim>\<open>crm_contacts\<close>.\<close>

definition update_contact ::
  "call_site set \<Rightarrow> store \<Rightarrow> uuid \<Rightarrow> (contact \<Rightarrow> contact) \<Rightarrow> (db_error + contact) \<times> store" where
  "update_contact F s cid updates =
     (if Q_update_contact \<in> F then (Inl Rejected, s)
      else
        (let s' = s\<lparr>contacts := map (\<lambda>c. if ct_id c = cid then updates c else c) (contacts s)\<rparr>
         in (single (filter (\<lambda>c. ct_id c = cid) (contacts s')), s')))"

text \<open>
  \<^verbatim>\<open>insert(row).select().single()\<close> on \<^verbatim>\<open>crm_contacts\<close>, under
  \<^verbatim>\<open>UNIQUE (org_id, phone)\<close>.
\<close>

definition insert_contact :: "call_site set \<Rightarrow> store \<Rightarrow> contact \<Rightarrow> (db_error + contact) \<times> store" where
  "insert_contact F s row =
     (if Q_insert_contact \<in> F then (Inl Rejected, s)
      else if \<exists>c \<in> set (contacts s). ct_org_id c = ct_org_id row \<and> ct_phone c = ct_phone row
      then (Inl (UniqueViolation ''crm_contacts_org_id_phone_key''), s)
      else
        (let created = row\<lparr>ct_id := next_uuid s\<rparr>
         in (Inr created,
             s\<lparr>contacts := contacts s @ [created], next_uuid := Suc (next_uuid s)\<rparr>)))"

text \<open>
  \<^verbatim>\<open>upsertContact\<close>. Between its lookup and its write other invocations may have changed
  the store; \<open>between\<close> is their effect (the identity when the call runs alone). The
  result is the returned contact or the exception thrown, with the store as it is left.
\<close>

definition upsertContact ::
  "call_site set \<Rightarrow> env \<Rightarrow> (store \<Rightarrow> store) \<Rightarrow> store \<Rightarrow> uuid \<Rightarrow> string \<Rightarrow>
   string option \<Rightarrow> string option \<Rightarrow> (exn + contact) \<times> store" where
  "upsertContact F e between s orgId phone name profilePicture =
     (let found = find_contact F s orgId phone;
          s1 = between s
      in case found of
           Inr existing \<Rightarrow>
             (let set_name = (truthy name \<and> \<not> truthy (ct_name existing));
                  set_picture = (truthy profilePicture \<and>
                                 profilePicture \<noteq> ct_profile_picture_url existing)
              in if set_name \<or> set_picture then
                   (case update_contact F s1 (ct_id existing)
                           (\<lambda>c. c\<lparr>ct_updated_at := env_now e,
                                  ct_name := (if set_name then name else ct_name c),
                                  ct_profile_picture_url :=
                                    (if set_picture then profilePicture
                                     else ct_profile_picture_url c)\<rparr>) of
                      (Inl updateError, s2) \<Rightarrow> (Inr existing, s2)
                    | (Inr updated, s2) \<Rightarrow> (Inr updated, s2))
                 else (Inr existing, s1))
         | Inl findError \<Rightarrow>
             (case insert_contact F s1
                     \<lparr>ct_id = 0, ct_org_id = orgId, ct_phone = phone, ct_name = or_null name,
                      ct_profile_picture_url = or_null profilePicture,
                      ct_custom_fields = [], ct_tags = [], ct_updated_at = env_now e\<rparr> of
                (Inl createError, s2) \<Rightarrow> (Inl (Error ''Failed to create contact'' createError), s2)
              | (Inr created, s2) \<Rightarrow> (Inr created, s2)))"


text \<open>The schema's \<^verbatim>\<open>UNIQUE (org_id, phone)\<close> as a property of the store.\<close>

definition contact_key_unique :: "store \<Rightarrow> bool" where
  "contact_key_unique s = distinct (map (\<lambda>c. (ct_org_id c, ct_phone c)) (contacts s))"


section \<open>Conversation resolution\<close>

text \<open>
  \<^verbatim>\<open>order('created_at', { ascending: false }).limit(1).maybeSingle()\<close>: a row with the
  greatest \<^verbatim>\<open>created_at\<close>, the earliest such row of the table when several share it, and
  no row (without an error) when there is none.
\<close>

fun most_recent :: "conversation list \<Rightarrow> conversation option" where
  "most_recent [] = None"
| "most_recent (c # cs) =
     (case most_recent cs of
        None \<Rightarrow> Some c
      | Some b \<Rightarrow> if cv_created_at c \<ge> cv_created_at b then Some c else Some b)"

definition find_conversation ::
  "call_site set \<Rightarrow> store \<Rightarrow> uuid \<Rightarrow> uuid \<Rightarrow> db_error + conversation option" where
  "find_conversation F s orgId contactId =
     (if Q_find_conversation \<in> F then Inl Rejected
      else Inr (most_recent
        (filter (\<lambda>c. cv_org_id c = orgId \<and> cv_contact_id c = contactId \<and>
                     cv_status c \<in> {CS_pending, CS_open, CS_waiting})
           (conversations s))))"

text \<open>
  \<^verbatim>\<open>insert(row).select().single()\<close> on \<^verbatim>\<open>crm_conversations\<close>, under
  \<^verbatim>\<open>protocol_number text UNIQUE\<close>.
\<close>

definition insert_conversation ::
  "call_site set \<Rightarrow> store \<Rightarrow> conversation \<Rightarrow> (db_error + conversation) \<times> store" where
  "insert_conversation F s row =
     (if Q_insert_conversation \<in> F then (Inl Rejected, s)
      else if cv_protocol_number row \<noteq> None \<and>
              (\<exists>c \<in> set (conversations s). cv_protocol_number c = cv_protocol_number row)
      then (Inl (UniqueViolation ''crm_conversations_protocol_number_key''), s)
      else
        (let created = row\<lparr>cv_id := next_uuid s\<rparr>
         in (Inr created,
             s\<lparr>conversations := conversations s @ [created], next_uuid := Suc (next_uuid s)\<rparr>)))"

text \<open>An insert into \<^verbatim>\<open>crm_protocol_log\<close>; the pipeline never looks at its result.\<close>

definition insert_protocol_log :: "call_site set \<Rightarrow> store \<Rightarrow> protocol_log_entry \<Rightarrow> store" where
  "insert_protocol_log F s row =
     (if Q_insert_protocol_log \<in> F then s else s\<lparr>protocol_log := protocol_log s @ [row]\<rparr>)"

text \<open>The row that \<^verbatim>\<open>findOrCreateConversation\<close> inserts, and the log entry it writes after.\<close>

definition new_conversation :: "env \<Rightarrow> uuid \<Rightarrow> uuid \<Rightarrow> string \<Rightarrow> conversation" where
  "new_conversation e orgId contactId protocolNumber =
     \<lparr>cv_id = 0, cv_org_id = orgId, cv_contact_id = contactId,
      cv_assigned_agent_id = None, cv_queue = None, cv_status = CS_pending,
      cv_is_bot_active = False, cv_protocol_number = Some protocolNumber,
      cv_last_message_at = Some (env_now e), cv_last_message_preview = None,
      cv_unread_count = 0, cv_created_at = env_now e, cv_updated_at = env_now e\<rparr>"

definition conversation_created_entry :: "uuid \<Rightarrow> uuid \<Rightarrow> string \<Rightarrow> protocol_log_entry" where
  "conversation_created_entry orgId conversationId protocolNumber =
     \<lparr>pl_org_id = orgId, pl_conversation_id = conversationId,
      pl_protocol_number = protocolNumber, pl_action = ''conversation_created'',
      pl_agent_id = None, pl_details = [(''source'', D_text ''whatsapp_incoming'')]\<rparr>"

definition findOrCreateConversation ::
  "call_site set \<Rightarrow> env \<Rightarrow> store \<Rightarrow> uuid \<Rightarrow> uuid \<Rightarrow> (exn + conversation) \<times> store" where
  "findOrCreateConversation F e s orgId contactId =
     (case find_conversation F s orgId contactId of
        Inr (Some existing) \<Rightarrow> (Inr existing, s)
      | _ \<Rightarrow>
          (let protocolNumber = generateProtocolNumber (env_date e) (env_random e)
           in case insert_conversation F s (new_conversation e orgId contactId protocolNumber) of
                (Inl createError, s1) \<Rightarrow>
                  (Inl (Error ''Failed to create conversation'' createError), s1)
              | (Inr created, s1) \<Rightarrow>
                  (Inr created,
                   insert_protocol_log F s1
                     (conversation_created_entry orgId (cv_id created) protocolNumber))))"


section \<open>Agent assignment\<close>

text \<open>
  The agent query: status \<^verbatim>\<open>online\<close> or \<^verbatim>\<open>away\<close>, role agent, admin or owner, and, when a
  queue is given, that queue or \<^verbatim>\<open>both\<close>.
\<close>

definition select_agents ::
  "call_site set \<Rightarrow> store \<Rightarrow> uuid \<Rightarrow> string option \<Rightarrow> db_error + crm_user list" where
  "select_agents F s orgId queue =
     (if Q_select_agents \<in> F then Inl Rejected
      else Inr (filter
        (\<lambda>u. u_org_id u = orgId \<and> u_status u \<in> {US_online, US_away} \<and>
             u_role u \<in> {R_agent, R_admin, R_owner} \<and>
             (if truthy queue then Some (u_queue u) = queue \<or> u_queue u = ''both'' else True))
        (users s)))"

text \<open>The exact count of the agent's conversations in status \<^verbatim>\<open>open\<close> or \<^verbatim>\<open>waiting\<close>.\<close>

definition open_count :: "store \<Rightarrow> uuid \<Rightarrow> uuid \<Rightarrow> nat" where
  "open_count s orgId agentId =
     length (filter
       (\<lambda>c. cv_org_id c = orgId \<and> cv_assigned_agent_id c = Some agentId \<and>
            cv_status c \<in> {CS_open, CS_waiting})
       (conversations s))"

definition count_conversations :: "call_site set \<Rightarrow> store \<Rightarrow> uuid \<Rightarrow> uuid \<Rightarrow> db_error + nat" where
  "count_conversations F s orgId agentId =
     (if Q_count_conversations agentId \<in> F then Inl Rejected
      else Inr (open_count s orgId agentId))"

record agent_count =
  ac_agent :: crm_user
  ac_openCount :: int

text \<open>
  The engine awaits each of its calls to the store on its own, inside no transaction, and
  the route starts the processing of a payload without waiting for it to end: other runs
  write to the store between two calls of a run. The agent query is call 0 of a run, the
  counts for the \<open>n\<close> agents it returns are calls 1 to \<open>n\<close>, and the update is call
  \<open>n + 1\<close>. \<open>between k\<close> is what the other runs do to the store after call \<open>k - 1\<close> and
  before call \<open>k\<close>, and \<open>store_before between s k\<close> is the store as call \<open>k\<close> finds it,
  \<open>s\<close> being the store the agent query reads. \<open>alone\<close> is the run that no other run
  interleaves with.
\<close>

fun store_before :: "(nat \<Rightarrow> store \<Rightarrow> store) \<Rightarrow> store \<Rightarrow> nat \<Rightarrow> store" where
  "store_before between s 0 = s"
| "store_before between s (Suc k) = between (Suc k) (store_before between s k)"

definition alone :: "nat \<Rightarrow> store \<Rightarrow> store" where
  "alone k s = s"

text \<open>
  The loop that fills \<^verbatim>\<open>agentCounts\<close>, from call \<open>k\<close> on: a failed count and a full agent
  are skipped.
\<close>

fun agentCounts ::
  "call_site set \<Rightarrow> (nat \<Rightarrow> store \<Rightarrow> store) \<Rightarrow> store \<Rightarrow> uuid \<Rightarrow> nat \<Rightarrow> crm_user list \<Rightarrow>
   agent_count list" where
  "agentCounts F between s orgId k [] = []"
| "agentCounts F between s orgId k (agent # agents) =
     (case count_conversations F (store_before between s k) orgId (u_id agent) of
        Inl countError \<Rightarrow> agentCounts F between s orgId (Suc k) agents
      | Inr count \<Rightarrow>
          (let openCount = int count
           in if openCount \<ge> u_max_concurrent_chats agent
              then agentCounts F between s orgId (Suc k) agents
              else \<lparr>ac_agent = agent, ac_openCount = openCount\<rparr>
                     # agentCounts F between s orgId (Suc k) agents))"

text \<open>The comparator handed to \<^verbatim>\<open>agentCounts.sort\<close>.\<close>

definition compareAgents :: "agent_count \<Rightarrow> agent_count \<Rightarrow> int" where
  "compareAgents a b =
     (if u_status (ac_agent a) = US_online \<and> u_status (ac_agent b) \<noteq> US_online then - 1
      else if u_status (ac_agent a) \<noteq> US_online \<and> u_status (ac_agent b) = US_online then 1
      else ac_openCount a - ac_openCount b)"

text \<open>
  \<^verbatim>\<open>Array.prototype.sort\<close> is stable: elements that compare equal keep their order. The
  stable arrangement is computed by insertion.
\<close>

fun insert_by :: "('a \<Rightarrow> 'a \<Rightarrow> int) \<Rightarrow> 'a \<Rightarrow> 'a list \<Rightarrow> 'a list" where
  "insert_by cmp x [] = [x]"
| "insert_by cmp x (y # ys) = (if cmp x y \<le> 0 then x # y # ys else y # insert_by cmp x ys)"

definition sort_by :: "('a \<Rightarrow> 'a \<Rightarrow> int) \<Rightarrow> 'a list \<Rightarrow> 'a list" where
  "sort_by cmp xs = foldr (insert_by cmp) xs []"

text \<open>
  \<^verbatim>\<open>update({assigned_agent_id, status: 'open', updated_at}).eq('id', conversationId)\<close>:
  what the update makes of one row, and the update of the table.
\<close>

definition assigned_to :: "env \<Rightarrow> uuid \<Rightarrow> uuid \<Rightarrow> conversation \<Rightarrow> conversation" where
  "assigned_to e conversationId agentId c =
     (if cv_id c = conversationId
      then c\<lparr>cv_assigned_agent_id := Some agentId, cv_status := CS_open,
             cv_updated_at := env_now e\<rparr>
      else c)"

definition assign_conversation ::
  "call_site set \<Rightarrow> env \<Rightarrow> store \<Rightarrow> uuid \<Rightarrow> uuid \<Rightarrow> db_error option \<times> store" where
  "assign_conversation F e s conversationId agentId =
     (if Q_assign_conversation \<in> F then (Some Rejected, s)
      else (None,
            s\<lparr>conversations := map (assigned_to e conversationId agentId) (conversations s)\<rparr>))"

definition select_protocol_number :: "call_site set \<Rightarrow> store \<Rightarrow> uuid \<Rightarrow> db_error + string option" where
  "select_protocol_number F s conversationId =
     (if Q_select_protocol_number \<in> F then Inl Rejected
      else map_sum id cv_protocol_number
             (single (filter (\<lambda>c. cv_id c = conversationId) (conversations s))))"

definition insert_activity_log :: "call_site set \<Rightarrow> store \<Rightarrow> activity_log_entry \<Rightarrow> store" where
  "insert_activity_log F s row =
     (if Q_insert_activity_log \<in> F then s
      else s\<lparr>agent_activity_log := agent_activity_log s @ [row]\<rparr>)"

text \<open>
  \<^verbatim>\<open>assignAgent\<close>. The counts are read one call after the other and the update is written
  by a later call, on the store as the other runs have left it by then; the engine does not
  read a count again before it writes. What the other runs do after the update, while the
  two log calls are made, is left out: it bears on the log rows only.
\<close>

definition assignAgent ::
  "call_site set \<Rightarrow> env \<Rightarrow> (nat \<Rightarrow> store \<Rightarrow> store) \<Rightarrow> store \<Rightarrow> uuid \<Rightarrow> uuid \<Rightarrow>
   string option \<Rightarrow> store" where
  "assignAgent F e between s orgId conversationId queue =
     (case select_agents F s orgId queue of
        Inl agentError \<Rightarrow> s
      | Inr agents \<Rightarrow>
          if agents = [] then s
          else
            (case sort_by compareAgents (agentCounts F between s orgId (Suc 0) agents) of
               [] \<Rightarrow> store_before between s (length agents)
             | first # others \<Rightarrow>
                 (let selectedAgent = ac_agent first
                  in case assign_conversation F e (store_before between s (Suc (length agents)))
                            conversationId (u_id selectedAgent) of
                       (Some assignError, s1) \<Rightarrow> s1
                     | (None, s1) \<Rightarrow>
                         (let s2 =
                            (case select_protocol_number F s1 conversationId of
                               Inr (Some protocol_number) \<Rightarrow>
                                 if protocol_number = [] then s1
                                 else insert_protocol_log F s1
                                   \<lparr>pl_org_id = orgId, pl_conversation_id = conversationId,
                                    pl_protocol_number = protocol_number,
                                    pl_action = ''agent_assigned'', pl_agent_id = None,
                                    pl_details =
                                      [(''agent_id'', D_uuid (u_id selectedAgent)),
                                       (''agent_name'', D_text (u_display_name selectedAgent)),
                                       (''method'', D_text ''round_robin_least_busy'')]\<rparr>
                             | _ \<Rightarrow> s1)
                          in insert_activity_log F s2
                               \<lparr>al_org_id = orgId, al_agent_id = u_id selectedAgent,
                                al_activity_type = ''conversation_assigned'',
                                al_details = [(''conversation_id'', D_uuid conversationId)]\<rparr>))))"


section \<open>The per-message pipeline\<close>

record wa_contact =
  wc_wa_id :: string
  wc_profile_name :: "string option"

text \<open>The calls made to the provider and to media storage, in the order they are made.\<close>

datatype outcall =
  UploadMedia string string uuid
| SendText string string string string
| MarkAsRead "string option" string string

text \<open>\<^verbatim>\<open>org.whatsapp_access_token || process.env.WHATSAPP_ACCESS_TOKEN\<close>.\<close>

definition access_token :: "env \<Rightarrow> organization \<Rightarrow> string option" where
  "access_token e org =
     (if truthy (whatsapp_access_token org) then whatsapp_access_token org
      else env_access_token e)"

text \<open>
  \<^verbatim>\<open>new Date(parseInt(timestamp) * 1000).toISOString()\<close>: a \<^verbatim>\<open>RangeError\<close> when the
  timestamp is not a number or lies outside the range of dates.
\<close>

definition toISOString_of_seconds :: "int option \<Rightarrow> exn + int" where
  "toISOString_of_seconds timestamp =
     (case timestamp of
        None \<Rightarrow> Inl RangeError
      | Some t \<Rightarrow> if \<bar>t * 1000\<bar> > 8640000000000000 then Inl RangeError else Inr (t * 1000))"

text \<open>
  \<^verbatim>\<open>insert(row).select().single()\<close> on \<^verbatim>\<open>crm_messages\<close>, under
  \<^verbatim>\<open>whatsapp_message_id text UNIQUE\<close> (which, as in SQL, never rejects a missing id).
\<close>

definition insert_message :: "call_site set \<Rightarrow> store \<Rightarrow> message \<Rightarrow> (db_error + message) \<times> store" where
  "insert_message F s row =
     (if Q_insert_message \<in> F then (Inl Rejected, s)
      else if m_whatsapp_message_id row \<noteq> None \<and>
              (\<exists>m \<in> set (messages s). m_whatsapp_message_id m = m_whatsapp_message_id row)
      then (Inl (UniqueViolation ''crm_messages_whatsapp_message_id_key''), s)
      else
        (let saved = row\<lparr>m_id := next_uuid s\<rparr>
         in (Inr saved, s\<lparr>messages := messages s @ [saved], next_uuid := Suc (next_uuid s)\<rparr>)))"

text \<open>\<^verbatim>\<open>update(updates).eq('id', id)\<close> on \<^verbatim>\<open>crm_conversations\<close>; an error is only logged.\<close>

definition update_conversation ::
  "call_site set \<Rightarrow> store \<Rightarrow> uuid \<Rightarrow> (conversation \<Rightarrow> conversation) \<Rightarrow> store" where
  "update_conversation F s cid updates =
     (if Q_update_conversation \<in> F then s
      else s\<lparr>conversations := map (\<lambda>c. if cv_id c = cid then updates c else c) (conversations s)\<rparr>)"

text \<open>
  Steps 6 to 10 of \<^verbatim>\<open>processIncomingMessage\<close>, which run once the message row is saved:
  the conversation's aggregate fields, the bot check, the assignment, the auto-reply and
  the read receipt. \<open>conversation\<close> is the row as conversation resolution returned it;
  nothing re-reads it. The pipeline is the processing of one message with no other run
  interleaved: the assignment engine runs \<open>alone\<close>.
\<close>

definition after_message_saved ::
  "call_site set \<Rightarrow> env \<Rightarrow> store \<Rightarrow> organization \<Rightarrow> wa_message \<Rightarrow> string \<Rightarrow>
   conversation \<Rightarrow> string \<Rightarrow> store \<times> outcall list" where
  "after_message_saved F e s org message phoneNumberId conversation messagePreview =
     (case toISOString_of_seconds (msg_timestamp message) of
        Inl rangeError \<Rightarrow> (s, [])
      | Inr last_message_at \<Rightarrow>
          (let s1 = update_conversation F s (cv_id conversation)
                      (\<lambda>c. c\<lparr>cv_last_message_at := Some last_message_at,
                             cv_last_message_preview := Some messagePreview,
                             cv_unread_count := cv_unread_count conversation + 1,
                             cv_updated_at := env_now e\<rparr>)
           in if cv_is_bot_active conversation then (s1, [])
              else
                (let s2 =
                   (if cv_status conversation = CS_pending \<and>
                       cv_assigned_agent_id conversation = None
                    then assignAgent F e alone s1 (org_id org) (cv_id conversation)
                           (cv_queue conversation)
                    else s1);
                     autoReply =
                   (case (or_null (auto_reply_message org), or_null (access_token e org)) of
                      (Some text, Some accessToken) \<Rightarrow>
                        if cv_status conversation = CS_pending
                        then [SendText (msg_from message) text phoneNumberId accessToken]
                        else []
                    | _ \<Rightarrow> []);
                     readReceipt =
                   (case or_null (access_token e org) of
                      Some accessToken \<Rightarrow> [MarkAsRead (msg_id message) phoneNumberId accessToken]
                    | None \<Rightarrow> [])
                 in (s2, autoReply @ readReceipt))))"

text \<open>
  Steps 1 and 2 of \<^verbatim>\<open>processIncomingMessage\<close>: the sender's profile name is looked up in
  the payload's contacts, the contact is resolved, then the conversation. An exception of
  either is the result.
\<close>

definition resolve_sender ::
  "call_site set \<Rightarrow> env \<Rightarrow> store \<Rightarrow> organization \<Rightarrow> wa_message \<Rightarrow> wa_contact list \<Rightarrow>
   (exn + contact \<times> conversation) \<times> store" where
  "resolve_sender F e s org message waContacts =
     (let senderPhone = msg_from message;
          contactProfile = find (\<lambda>c. wc_wa_id c = senderPhone) waContacts;
          senderName = or_null (opt_field contactProfile wc_profile_name)
      in case upsertContact F e id s (org_id org) senderPhone senderName None of
           (Inl contactError, s1) \<Rightarrow> (Inl contactError, s1)
         | (Inr contact, s1) \<Rightarrow>
             (case findOrCreateConversation F e s1 (org_id org) (ct_id contact) of
                (Inl conversationError, s2) \<Rightarrow> (Inl conversationError, s2)
              | (Inr conversation, s2) \<Rightarrow> (Inr (contact, conversation), s2)))"

text \<open>
  Step 4: when the message has a media id and a token is at hand, the media is uploaded;
  the result is the media URL, the MIME type to store, and the call made. A failed upload
  is caught and leaves the URL empty.
\<close>

definition materialize_media ::
  "env \<Rightarrow> organization \<Rightarrow> extracted \<Rightarrow> uuid \<Rightarrow> string option \<times> string option \<times> outcall list" where
  "materialize_media e org x conversationId =
     (case (or_null (mediaId x), or_null (access_token e org)) of
        (Some mid, Some accessToken) \<Rightarrow>
          (case env_upload e mid of
             Some (publicUrl, mt) \<Rightarrow>
               (Some publicUrl, Some mt, [UploadMedia mid accessToken conversationId])
           | None \<Rightarrow> (None, or_null (mimeType x), [UploadMedia mid accessToken conversationId]))
      | _ \<Rightarrow> (None, or_null (mimeType x), []))"

text \<open>The row of step 5.\<close>

definition new_message ::
  "env \<Rightarrow> contact \<Rightarrow> conversation \<Rightarrow> extracted \<Rightarrow> string option \<Rightarrow> string option \<Rightarrow>
   string option \<Rightarrow> message" where
  "new_message e contact conversation x mediaUrl mediaMimeType waMessageId =
     \<lparr>m_id = 0, m_conversation_id = cv_id conversation, m_sender_type = ST_contact,
      m_sender_id = Some (ct_id contact), m_message_type = messageType x,
      m_content = content x, m_media_url = mediaUrl, m_media_mime_type = mediaMimeType,
      m_media_filename = or_null (filename x), m_whatsapp_message_id = waMessageId,
      m_status = MS_delivered, m_error_message = None, m_reply_to_message_id = None,
      m_created_at = env_now e\<rparr>"

text \<open>
  \<^verbatim>\<open>processIncomingMessage\<close>. An exception of any step is caught by the function's own
  \<^verbatim>\<open>try\<close>: the function returns with the store as that step left it. The result is the
  store and the calls made.
\<close>

definition processIncomingMessage ::
  "call_site set \<Rightarrow> env \<Rightarrow> store \<Rightarrow> organization \<Rightarrow> wa_message \<Rightarrow> wa_contact list \<Rightarrow> string \<Rightarrow>
   store \<times> outcall list" where
  "processIncomingMessage F e s org message waContacts phoneNumberId =
     (case resolve_sender F e s org message waContacts of
        (Inl resolveError, s2) \<Rightarrow> (s2, [])
      | (Inr (contact, conversation), s2) \<Rightarrow>
          (let x = extractMessageContent message;
               messagePreview = buildMessagePreview (messageType x) (content x)
           in case materialize_media e org x (cv_id conversation) of
                (mediaUrl, mediaMimeType, uploads) \<Rightarrow>
                  (case insert_message F s2
                          (new_message e contact conversation x mediaUrl mediaMimeType
                             (msg_id message)) of
                     (Inl msgError, s3) \<Rightarrow> (s3, uploads)
                   | (Inr savedMessage, s3) \<Rightarrow>
                       (case after_message_saved F e s3 org message phoneNumberId
                               conversation messagePreview of
                          (s4, calls) \<Rightarrow> (s4, uploads @ calls)))))"

text \<open>The upload calls of step 4 for a message and its conversation.\<close>

definition uploads_of :: "env \<Rightarrow> organization \<Rightarrow> wa_message \<Rightarrow> conversation \<Rightarrow> outcall list" where
  "uploads_of e org message conversation =
     snd (snd (materialize_media e org (extractMessageContent message) (cv_id conversation)))"

text \<open>What a step leaves alone: every table but the ones named.\<close>

definition frame_contacts :: "store \<Rightarrow> store \<Rightarrow> bool" where
  "frame_contacts s s' = (s'\<lparr>contacts := contacts s, next_uuid := next_uuid s\<rparr> = s)"

text \<open>Conversation resolution adds at most one conversation, pending and without an agent.\<close>

definition frame_resolution :: "store \<Rightarrow> store \<Rightarrow> bool" where
  "frame_resolution s s' =
     (messages s' = messages s \<and> agent_activity_log s' = agent_activity_log s \<and>
      users s' = users s \<and>
      (conversations s' = conversations s \<or>
       (\<exists>created. conversations s' = conversations s @ [created] \<and>
          cv_assigned_agent_id created = None \<and> cv_status created = CS_pending)) \<and>
      (\<forall>entry \<in> set (protocol_log s').
         entry \<in> set (protocol_log s) \<or> pl_action entry = ''conversation_created''))"

text \<open>
  A run that leads from store \<open>s\<close> to store \<open>s'\<close> has assigned an agent when \<open>s'\<close> holds a
  conversation row with an agent that \<open>s\<close> did not hold.
\<close>

definition assigns :: "store \<Rightarrow> store \<Rightarrow> bool" where
  "assigns s s' =
     (\<exists>c \<in> set (conversations s'). c \<notin> set (conversations s) \<and> cv_assigned_agent_id c \<noteq> None)"

text \<open>The number of stored messages with a given provider message id.\<close>

definition stored_count :: "store \<Rightarrow> string \<Rightarrow> nat" where
  "stored_count s wamid =
     length (filter (\<lambda>m. m_whatsapp_message_id m = Some wamid) (messages s))"


section \<open>Delivery status\<close>

record wa_error =
  err_code :: int
  err_title :: string

record wa_status =
  st_id :: string
  st_status :: string
  st_errors :: "wa_error list option"

text \<open>
  \<^verbatim>\<open>statusMap[statusValue]\<close>. The map is an object literal, so besides its four own keys
  the lookup finds the members every object inherits; those values are functions or
  objects, not statuses.
\<close>

datatype mapped_status = Own message_status | Inherited | Undefined

definition Object_prototype_members :: "string list" where
  "Object_prototype_members =
     [''constructor'', ''hasOwnProperty'', ''isPrototypeOf'', ''propertyIsEnumerable'',
      ''toLocaleString'', ''toString'', ''valueOf'', ''__proto__'', ''__defineGetter__'',
      ''__defineSetter__'', ''__lookupGetter__'', ''__lookupSetter__'']"

definition statusMap :: "string \<Rightarrow> mapped_status" where
  "statusMap statusValue =
     (if statusValue = ''sent'' then Own MS_sent
      else if statusValue = ''delivered'' then Own MS_delivered
      else if statusValue = ''read'' then Own MS_read
      else if statusValue = ''failed'' then Own MS_failed
      else if statusValue \<in> set Object_prototype_members then Inherited
      else Undefined)"

text \<open>\<^verbatim>\<open>Number.prototype.toString\<close> on an integer.\<close>

definition int_toString :: "int \<Rightarrow> string" where
  "int_toString i = (if i < 0 then ''-'' @ decimal (nat (- i)) else decimal (nat i))"

text \<open>
  \<^verbatim>\<open>update(updateData).eq('whatsapp_message_id', id)\<close> on \<^verbatim>\<open>crm_messages\<close>;
  \<open>error_message\<close> is written only when \<open>updateData\<close> has it.
\<close>

definition update_message_status ::
  "call_site set \<Rightarrow> store \<Rightarrow> string \<Rightarrow> message_status \<Rightarrow> string option \<Rightarrow> store" where
  "update_message_status F s waMessageId mappedStatus error_message =
     (if Q_update_message \<in> F then s
      else s\<lparr>messages :=
               map (\<lambda>m. if m_whatsapp_message_id m = Some waMessageId
                        then (case error_message of
                                None \<Rightarrow> m\<lparr>m_status := mappedStatus\<rparr>
                              | Some text \<Rightarrow>
                                  m\<lparr>m_status := mappedStatus, m_error_message := Some text\<rparr>)
                        else m)
                   (messages s)\<rparr>)"

text \<open>
  \<^verbatim>\<open>processStatusUpdate\<close>. An inherited member passes the \<^verbatim>\<open>!mappedStatus\<close> test, but the
  update then carries no status that the column's \<^verbatim>\<open>CHECK\<close> admits, and no row changes.
\<close>

definition processStatusUpdate :: "call_site set \<Rightarrow> store \<Rightarrow> wa_status \<Rightarrow> store" where
  "processStatusUpdate F s status =
     (let waMessageId = st_id status;
          statusValue = st_status status;
          errors = st_errors status
      in case statusMap statusValue of
           Undefined \<Rightarrow> s
         | Inherited \<Rightarrow> s
         | Own mappedStatus \<Rightarrow>
             (let error_message =
                (case errors of
                   None \<Rightarrow> None
                 | Some es \<Rightarrow>
                     if mappedStatus = MS_failed \<and> length es > 0
                     then Some (join ''; ''
                            (map (\<lambda>e. int_toString (err_code e) @ '': '' @ err_title e) es))
                     else None)
              in update_message_status F s waMessageId mappedStatus error_message))"


section \<open>Sample data\<close>

text \<open>
  One organisation with an auto-reply text, an away agent with two open conversations, an
  online agent with five, a contact with a pending conversation, and one outbound message.
\<close>

definition sample_env :: env where
  "sample_env =
     \<lparr>env_now = 1770854400000, env_date = (2026, 2, 12), env_random = 42,
      env_access_token = None, env_upload = (\<lambda>mid. None)\<rparr>"

definition sample_org :: organization where
  "sample_org =
     \<lparr>org_id = 7, whatsapp_phone_number_id = Some ''1055'',
      whatsapp_access_token = Some ''token'',
      auto_reply_message = Some ''We will be right with you''\<rparr>"

definition agent_away :: crm_user where
  "agent_away =
     \<lparr>u_id = 10, u_org_id = 7, u_display_name = ''Ana'', u_role = R_agent, u_queue = ''both'',
      u_status = US_away, u_max_concurrent_chats = 10\<rparr>"

definition agent_online :: crm_user where
  "agent_online =
     \<lparr>u_id = 11, u_org_id = 7, u_display_name = ''Bruno'', u_role = R_agent, u_queue = ''both'',
      u_status = US_online, u_max_concurrent_chats = 10\<rparr>"

definition sample_contact :: contact where
  "sample_contact =
     \<lparr>ct_id = 20, ct_org_id = 7, ct_phone = ''5511999990000'', ct_name = Some ''Carla'',
      ct_profile_picture_url = None, ct_custom_fields = [], ct_tags = [],
      ct_updated_at = 1770000000000\<rparr>"

definition busy_conversation :: "uuid \<Rightarrow> uuid \<Rightarrow> conversation" where
  "busy_conversation i a =
     \<lparr>cv_id = i, cv_org_id = 7, cv_contact_id = 21, cv_assigned_agent_id = Some a,
      cv_queue = None, cv_status = CS_open, cv_is_bot_active = False,
      cv_protocol_number = None, cv_last_message_at = None, cv_last_message_preview = None,
      cv_unread_count = 0, cv_created_at = 1770000000000, cv_updated_at = 1770000000000\<rparr>"

definition pending_conversation :: conversation where
  "pending_conversation =
     \<lparr>cv_id = 60, cv_org_id = 7, cv_contact_id = 20, cv_assigned_agent_id = None,
      cv_queue = None, cv_status = CS_pending, cv_is_bot_active = False,
      cv_protocol_number = Some ''20260212-00007'', cv_last_message_at = None,
      cv_last_message_preview = None, cv_unread_count = 0, cv_created_at = 1770800000000,
      cv_updated_at = 1770800000000\<rparr>"

definition sent_message :: message where
  "sent_message =
     \<lparr>m_id = 70, m_conversation_id = 60, m_sender_type = ST_agent, m_sender_id = Some 11,
      m_message_type = MT_text, m_content = Some ''Hi'', m_media_url = None,
      m_media_mime_type = None, m_media_filename = None,
      m_whatsapp_message_id = Some ''wamid.out1'', m_status = MS_sent, m_error_message = None,
      m_reply_to_message_id = None, m_created_at = 1770800000000\<rparr>"

definition sample_store :: store where
  "sample_store =
     \<lparr>organizations = [sample_org],
      users = [agent_away, agent_online],
      contacts = [sample_contact],
      conversations =
        [busy_conversation 30 10, busy_conversation 31 10,
         busy_conversation 40 11, busy_conversation 41 11, busy_conversation 42 11,
         busy_conversation 43 11, busy_conversation 44 11, pending_conversation],
      messages = [sent_message],
      protocol_log = [],
      agent_activity_log = [],
      next_uuid = 100\<rparr>"

text \<open>The same store with both agents at their maximum.\<close>

definition full_store :: store where
  "full_store =
     sample_store\<lparr>users := [agent_away\<lparr>u_max_concurrent_chats := 2\<rparr>,
                            agent_online\<lparr>u_max_concurrent_chats := 5\<rparr>]\<rparr>"

text \<open>
  The sample store with the online agent's maximum at six and a second pending
  conversation; and another run of the engine, for that second conversation, which makes
  all its calls after the two counts of a first run and before its update.
\<close>

definition tight_store :: store where
  "tight_store =
     sample_store\<lparr>users := [agent_away, agent_online\<lparr>u_max_concurrent_chats := 6\<rparr>],
                  conversations := conversations sample_store @
                    [pending_conversation\<lparr>cv_id := 61, cv_contact_id := 22,
                                           cv_protocol_number := Some ''20260212-00008''\<rparr>]\<rparr>"

definition rival :: "nat \<Rightarrow> store \<Rightarrow> store" where
  "rival k s = (if k = 3 then assignAgent {} sample_env alone s 7 61 None else s)"

text \<open>
  Another invocation of contact resolution for a new phone, run to its end; and the store
  in which the contact's only conversation is closed and carries today's number 00042.
\<close>

definition concurrent_create :: "store \<Rightarrow> store" where
  "concurrent_create s =
     snd (upsertContact {} sample_env id s 7 ''5511888880000'' (Some ''Davi'') None)"

definition closed_store :: store where
  "closed_store =
     sample_store\<lparr>conversations :=
       [pending_conversation\<lparr>cv_status := CS_closed,
                              cv_protocol_number := Some ''20260212-00042''\<rparr>]\<rparr>"

text \<open>The same moment with the next random draw.\<close>

definition next_env :: env where
  "next_env = sample_env\<lparr>env_random := 43\<rparr>"

text \<open>The sample store with the pending conversation handed to the bot.\<close>

definition bot_store :: store where
  "bot_store =
     sample_store\<lparr>conversations := [pending_conversation\<lparr>cv_is_bot_active := True\<rparr>]\<rparr>"

text \<open>The sample store in which the inbound message \<^verbatim>\<open>wamid.1\<close> is already saved.\<close>

definition seen_store :: store where
  "seen_store =
     sample_store\<lparr>messages :=
       [sent_message,
        sent_message\<lparr>m_id := 71, m_sender_type := ST_contact, m_sender_id := Some 20,
                      m_whatsapp_message_id := Some ''wamid.1'', m_status := MS_delivered\<rparr>]\<rparr>"

text \<open>The sample store with the contact's conversation open and assigned.\<close>

definition open_store :: store where
  "open_store =
     sample_store\<lparr>conversations :=
       [pending_conversation\<lparr>cv_status := CS_open, cv_assigned_agent_id := Some 11\<rparr>]\<rparr>"

definition sample_message :: "string \<Rightarrow> wa_message" where
  "sample_message t =
     \<lparr>msg_from = ''5511999990000'', msg_id = Some ''wamid.1'',
      msg_timestamp = Some 1770854400, msg_type = t, msg_text_body = Some ''Hello'',
      msg_image = Some \<lparr>media_id = Some ''media1'', media_mime_type = Some ''image/jpeg'',
                        media_caption = Some ''a photo'', media_filename = None\<rparr>,
      msg_audio = None, msg_video = None, msg_document = None, msg_sticker = None,
      msg_location = None, msg_reaction_emoji = None\<rparr>"


section \<open>Properties of the signature check\<close>

lemma utf8_unit_inj:
  assumes "utf8_unit c @ xs = utf8_unit d @ ys"
  shows "c = d \<and> xs = ys"
proof -
  let ?m = "of_char c :: nat" and ?n = "of_char d :: nat"
  have "?m = ?n \<and> xs = ys"
  proof (cases "?m < 128")
    case cm: True
    show ?thesis
    proof (cases "?n < 128")
      case True
      with cm assms show ?thesis by (simp add: utf8_unit_def Let_def)
    next
      case False
      with cm assms show ?thesis by (simp add: utf8_unit_def Let_def)
    qed
  next
    case cm: False
    show ?thesis
    proof (cases "?n < 128")
      case True
      with cm assms show ?thesis by (simp add: utf8_unit_def Let_def)
    next
      case False
      with cm assms have d: "?m div 64 = ?n div 64" and r: "?m mod 64 = ?n mod 64" and t: "xs = ys"
        by (simp_all add: utf8_unit_def Let_def)
      have "?m = 64 * (?m div 64) + ?m mod 64" by simp
      also have "\<dots> = 64 * (?n div 64) + ?n mod 64" using d r by simp
      also have "\<dots> = ?n" by simp
      finally show ?thesis using t by simp
    qed
  qed
  then show ?thesis by simp
qed

lemma Buffer_from_inj: "Buffer_from a = Buffer_from b \<Longrightarrow> a = b"
proof (induction a arbitrary: b)
  case Nil
  then show ?case
    by (cases b) (auto simp: Buffer_from_def utf8_unit_def Let_def split: if_splits)
next
  case (Cons c a)
  show ?case
  proof (cases b)
    case Nil
    with Cons.prems show ?thesis
      by (auto simp: Buffer_from_def utf8_unit_def Let_def split: if_splits)
  next
    case (Cons d b')
    with Cons.prems have "utf8_unit c @ Buffer_from a = utf8_unit d @ Buffer_from b'"
      by (simp add: Buffer_from_def)
    then have "c = d" and "Buffer_from a = Buffer_from b'"
      using utf8_unit_inj by blast+
    with Cons.IH Cons show ?thesis by simp
  qed
qed

lemma timingSafeEqual_iff: "timingSafeEqual a b \<longleftrightarrow> a = b"
proof (cases "length a = length b")
  case False
  then show ?thesis by (auto simp: timingSafeEqual_def Let_def)
next
  case True
  then show ?thesis
    using Buffer_from_inj [of a b]
    by (auto simp: timingSafeEqual_def crypto_timingSafeEqual_def Let_def)
qed

lemma POST_accepts:
  "secret \<noteq> [] \<Longrightarrow> JSON_parse body = Some payload \<Longrightarrow>
   POST hmac_hex JSON_parse (Some secret) (Some (''sha256='' @ hmac_hex secret body)) body =
     \<lparr>http_status = 200, http_error = None, dispatched = Some payload\<rparr>"
  by (simp add: POST_def timingSafeEqual_iff)

text \<open>
  C9. Signature verification fails closed and precedes parsing: when the shared secret is
  unconfigured, or the signature header is absent, or the header differs from
  \<^verbatim>\<open>sha256=\<close> followed by the hex HMAC-SHA256 of the raw body under the secret, the
  handler answers with an error status (500 or 401, never 200), hands no payload to the
  ingestion pipeline, and its outcome is the same whatever the JSON parser would have
  made of the body: the parser is not consulted.
\<close>

theorem POST_fails_closed:
  fixes JSON_parse JSON_parse' :: "string \<Rightarrow> 'p option"
  assumes "appSecret = None \<or> appSecret = Some [] \<or> signature = None \<or> signature = Some [] \<or>
           signature \<noteq> map_option (\<lambda>secret. ''sha256='' @ hmac_hex secret body) appSecret"
  shows "http_status (POST hmac_hex JSON_parse appSecret signature body) \<in> {500, 401} \<and>
         http_status (POST hmac_hex JSON_parse appSecret signature body) \<noteq> 200 \<and>
         dispatched (POST hmac_hex JSON_parse appSecret signature body) = None \<and>
         POST hmac_hex JSON_parse appSecret signature body =
           POST hmac_hex JSON_parse' appSecret signature body"
proof (cases "truthy appSecret \<and> truthy signature")
  case False
  then show ?thesis by (auto simp: POST_def)
next
  case True
  then obtain secret sig where s: "appSecret = Some secret" "secret \<noteq> []"
      "signature = Some sig" "sig \<noteq> []"
    by (cases appSecret; cases signature) auto
  with assms have "sig \<noteq> ''sha256='' @ hmac_hex secret body" by auto
  then have "\<not> timingSafeEqual sig (''sha256='' @ hmac_hex secret body)"
    by (simp add: timingSafeEqual_iff)
  with s show ?thesis by (simp add: POST_def)
qed

theorem POST_fails_closed_witness:
  "http_status (POST (\<lambda>k b. ''ab12'') (\<lambda>b. Some b) (Some ''topsecret'') (Some ''sha256=ab13'') ''{}'')
     = 401 \<and>
   dispatched (POST (\<lambda>k b. ''ab12'') (\<lambda>b. Some b) (Some ''topsecret'') (Some ''sha256=ab13'') ''{}'')
     = None"
  using POST_fails_closed [of "Some ''topsecret''" "Some ''sha256=ab13''" "\<lambda>k b. ''ab12''" "''{}''"
      "\<lambda>b. Some b" "\<lambda>b. Some b"]
  by (simp add: POST_def timingSafeEqual_iff)


section \<open>Properties of content extraction\<close>

lemma message_type_name_known:
  "msg_type m \<in> set known_types \<Longrightarrow>
   message_type_name (messageType (extractMessageContent m)) = msg_type m"
  by (auto simp: known_types_def extractMessageContent_def Let_def)

lemma JSON_stringify_object_braces:
  "hd (JSON_stringify_object kvs) = CHR ''{'' \<and> last (JSON_stringify_object kvs) = CHR ''}''"
  by (simp add: JSON_stringify_object_def)

text \<open>
  C6. Content extraction is a total mapping. For every provider message object the result
  is determined by the type tag alone: each of text, image, audio, video, document,
  sticker, location and reaction yields the message type of the same name; the caption is
  the text content of an image, video or document (none when the caption is missing or
  empty); audio and sticker carry no text; a location yields the JSON object text of its
  latitude, longitude, name and address; a reaction yields its emoji; and any other type
  tag yields a text message whose content is the placeholder naming that tag, with no
  media fields. There is no error result.
\<close>

theorem extractMessageContent_mapping:
  "(msg_type m \<in> set known_types \<longrightarrow>
      message_type_name (messageType (extractMessageContent m)) = msg_type m) \<and>
   (msg_type m = ''text'' \<longrightarrow>
      content (extractMessageContent m) = or_null (msg_text_body m)) \<and>
   (msg_type m = ''image'' \<longrightarrow>
      content (extractMessageContent m) = or_null (opt_field (msg_image m) media_caption)) \<and>
   (msg_type m = ''video'' \<longrightarrow>
      content (extractMessageContent m) = or_null (opt_field (msg_video m) media_caption)) \<and>
   (msg_type m = ''document'' \<longrightarrow>
      content (extractMessageContent m) = or_null (opt_field (msg_document m) media_caption)) \<and>
   (msg_type m = ''audio'' \<or> msg_type m = ''sticker'' \<longrightarrow>
      content (extractMessageContent m) = None) \<and>
   (msg_type m = ''location'' \<longrightarrow>
      (\<exists>blob. content (extractMessageContent m) = Some blob \<and>
         blob = JSON_stringify_object
           [(''latitude'', opt_field (msg_location m) loc_latitude),
            (''longitude'', opt_field (msg_location m) loc_longitude),
            (''name'', map_option JSON_stringify_string (opt_field (msg_location m) loc_name)),
            (''address'', map_option JSON_stringify_string
                            (opt_field (msg_location m) loc_address))] \<and>
         hd blob = CHR ''{'' \<and> last blob = CHR ''}'')) \<and>
   (msg_type m = ''reaction'' \<longrightarrow>
      content (extractMessageContent m) = or_null (msg_reaction_emoji m)) \<and>
   (msg_type m \<notin> set known_types \<longrightarrow>
      extractMessageContent m =
        \<lparr>messageType = MT_text,
         content = Some (''[Unsupported message type: '' @ msg_type m @ '']''),
         mediaId = None, mimeType = None, filename = None\<rparr>)"
proof -
  have known: "msg_type m \<in> set known_types \<longrightarrow>
      message_type_name (messageType (extractMessageContent m)) = msg_type m"
    using message_type_name_known [of m] by blast
  have loc: "msg_type m = ''location'' \<longrightarrow>
      (\<exists>blob. content (extractMessageContent m) = Some blob \<and>
         blob = JSON_stringify_object
           [(''latitude'', opt_field (msg_location m) loc_latitude),
            (''longitude'', opt_field (msg_location m) loc_longitude),
            (''name'', map_option JSON_stringify_string (opt_field (msg_location m) loc_name)),
            (''address'', map_option JSON_stringify_string
                            (opt_field (msg_location m) loc_address))] \<and>
         hd blob = CHR ''{'' \<and> last blob = CHR ''}'')"
    using JSON_stringify_object_braces by (simp add: extractMessageContent_def)
  have other: "msg_type m \<notin> set known_types \<longrightarrow>
      extractMessageContent m =
        \<lparr>messageType = MT_text,
         content = Some (''[Unsupported message type: '' @ msg_type m @ '']''),
         mediaId = None, mimeType = None, filename = None\<rparr>"
    by (simp add: known_types_def extractMessageContent_def)
  have rest: "(msg_type m = ''text'' \<longrightarrow>
      content (extractMessageContent m) = or_null (msg_text_body m)) \<and>
   (msg_type m = ''image'' \<longrightarrow>
      content (extractMessageContent m) = or_null (opt_field (msg_image m) media_caption)) \<and>
   (msg_type m = ''video'' \<longrightarrow>
      content (extractMessageContent m) = or_null (opt_field (msg_video m) media_caption)) \<and>
   (msg_type m = ''document'' \<longrightarrow>
      content (extractMessageContent m) = or_null (opt_field (msg_document m) media_caption)) \<and>
   (msg_type m = ''audio'' \<or> msg_type m = ''sticker'' \<longrightarrow>
      content (extractMessageContent m) = None) \<and>
   (msg_type m = ''reaction'' \<longrightarrow>
      content (extractMessageContent m) = or_null (msg_reaction_emoji m))"
    by (auto simp: extractMessageContent_def)
  from known loc other rest show ?thesis by blast
qed

theorem extractMessageContent_mapping_witness:
  "''image'' \<in> set known_types \<and>
   message_type_name (messageType (extractMessageContent (sample_message ''image''))) = ''image'' \<and>
   content (extractMessageContent (sample_message ''image'')) = Some ''a photo'' \<and>
   ''interactive'' \<notin> set known_types \<and>
   extractMessageContent (sample_message ''interactive'') =
     \<lparr>messageType = MT_text, content = Some ''[Unsupported message type: interactive]'',
      mediaId = None, mimeType = None, filename = None\<rparr>"
  using extractMessageContent_mapping [of "sample_message ''image''"]
        extractMessageContent_mapping [of "sample_message ''interactive''"]
  by (simp add: sample_message_def known_types_def opt_field_def)


section \<open>Properties of the delivery status tracker\<close>

lemma statusMap_vocabulary:
  "t \<in> {''sent'', ''delivered'', ''read'', ''failed''} \<longleftrightarrow>
   (\<exists>ms. statusMap t = Own ms)"
  by (auto simp: statusMap_def)

lemma statusMap_name: "statusMap t = Own ms \<Longrightarrow> message_status_name ms = t"
  by (auto simp: statusMap_def split: if_splits)

lemma processStatusUpdate_outside:
  "st_status status \<notin> {''sent'', ''delivered'', ''read'', ''failed''} \<Longrightarrow>
   processStatusUpdate F s status = s"
  by (auto simp: processStatusUpdate_def statusMap_def Let_def)

lemma update_message_status_other_tables:
  "(update_message_status F s w ms em)\<lparr>messages := messages s\<rparr> = s"
  by (simp add: update_message_status_def)

lemma processStatusUpdate_other_tables:
  "(processStatusUpdate F s status)\<lparr>messages := messages s\<rparr> = s"
  by (simp add: processStatusUpdate_def Let_def update_message_status_other_tables
      split: mapped_status.splits)

lemma update_message_status_other_fields:
  "map (\<lambda>m. m\<lparr>m_status := x, m_error_message := y\<rparr>) (messages (update_message_status F s w ms em))
   = map (\<lambda>m. m\<lparr>m_status := x, m_error_message := y\<rparr>) (messages s)"
  by (auto simp: update_message_status_def split: option.splits)

lemma processStatusUpdate_other_fields:
  "map (\<lambda>m. m\<lparr>m_status := x, m_error_message := y\<rparr>) (messages (processStatusUpdate F s status))
   = map (\<lambda>m. m\<lparr>m_status := x, m_error_message := y\<rparr>) (messages s)"
  by (simp add: processStatusUpdate_def Let_def update_message_status_other_fields
      split: mapped_status.splits)

lemma update_message_status_no_match:
  "\<forall>m \<in> set (messages s). m_whatsapp_message_id m \<noteq> Some w \<Longrightarrow>
   update_message_status F s w ms em = s"
  by (simp add: update_message_status_def map_idI)

lemma processStatusUpdate_no_match:
  "\<forall>m \<in> set (messages s). m_whatsapp_message_id m \<noteq> Some (st_id status) \<Longrightarrow>
   processStatusUpdate F s status = s"
  by (simp add: processStatusUpdate_def Let_def update_message_status_no_match
      split: mapped_status.splits)

lemma processStatusUpdate_status:
  "statusMap (st_status status) = Own ms \<Longrightarrow> Q_update_message \<notin> F \<Longrightarrow>
   map m_status (messages (processStatusUpdate F s status)) =
     map (\<lambda>m. if m_whatsapp_message_id m = Some (st_id status) then ms else m_status m)
       (messages s)"
  by (auto simp: processStatusUpdate_def Let_def update_message_status_def split: option.splits)

lemma processStatusUpdate_error_message:
  "st_status status = ''failed'' \<Longrightarrow> st_errors status = Some es \<Longrightarrow> es \<noteq> [] \<Longrightarrow>
   Q_update_message \<notin> F \<Longrightarrow>
   map m_error_message (messages (processStatusUpdate F s status)) =
     map (\<lambda>m. if m_whatsapp_message_id m = Some (st_id status)
              then Some (join ''; '' (map (\<lambda>e. int_toString (err_code e) @ '': '' @ err_title e) es))
              else m_error_message m)
       (messages s)"
  by (auto simp: processStatusUpdate_def Let_def update_message_status_def statusMap_def)





section \<open>Properties of agent assignment\<close>

lemma set_insert_by: "set (insert_by cmp x ys) = insert x (set ys)"
  by (induction ys) auto

lemma set_sort_by: "set (sort_by cmp xs) = set xs"
  by (induction xs) (simp_all add: sort_by_def set_insert_by)

lemma sort_by_Nil_iff: "sort_by cmp xs = [] \<longleftrightarrow> xs = []"
  using set_sort_by [of cmp xs] by (metis set_empty)

lemma compareAgents_le:
  "compareAgents a b \<le> 0 \<longleftrightarrow>
     (u_status (ac_agent a) = US_online \<and> u_status (ac_agent b) \<noteq> US_online) \<or>
     ((u_status (ac_agent a) = US_online \<longleftrightarrow> u_status (ac_agent b) = US_online) \<and>
      ac_openCount a \<le> ac_openCount b)"
  by (auto simp: compareAgents_def)

lemma compareAgents_total: "compareAgents a b \<le> 0 \<or> compareAgents b a \<le> 0"
  by (auto simp: compareAgents_le)

lemma compareAgents_trans:
  "compareAgents a b \<le> 0 \<Longrightarrow> compareAgents b c \<le> 0 \<Longrightarrow> compareAgents a c \<le> 0"
  by (auto simp: compareAgents_le)

lemma sorted_insert_by:
  assumes tot: "\<forall>a b. cmp a b \<le> 0 \<or> cmp b a \<le> 0"
      and tr: "\<forall>a b c. cmp a b \<le> 0 \<longrightarrow> cmp b c \<le> 0 \<longrightarrow> cmp a c \<le> 0"
  shows "sorted_wrt (\<lambda>a b. cmp a b \<le> 0) ys \<Longrightarrow>
         sorted_wrt (\<lambda>a b. cmp a b \<le> 0) (insert_by cmp x ys)"
proof (induction ys)
  case Nil
  then show ?case by simp
next
  case (Cons y ys)
  show ?case
  proof (cases "cmp x y \<le> 0")
    case True
    with Cons.prems tr show ?thesis by auto
  next
    case False
    with tot have "cmp y x \<le> 0" by blast
    with False Cons show ?thesis by (auto simp: set_insert_by)
  qed
qed

lemma sorted_sort_by:
  assumes tot: "\<forall>a b. cmp a b \<le> 0 \<or> cmp b a \<le> 0"
      and tr: "\<forall>a b c. cmp a b \<le> 0 \<longrightarrow> cmp b c \<le> 0 \<longrightarrow> cmp a c \<le> 0"
  shows "sorted_wrt (\<lambda>a b. cmp a b \<le> 0) (sort_by cmp xs)"
proof (induction xs)
  case Nil
  then show ?case by (simp add: sort_by_def)
next
  case (Cons x xs)
  have "sorted_wrt (\<lambda>a b. cmp a b \<le> 0) (insert_by cmp x (sort_by cmp xs))"
    by (rule sorted_insert_by [OF tot tr Cons.IH])
  then show ?case by (simp add: sort_by_def)
qed

lemma sort_by_first_least:
  assumes "sort_by compareAgents xs = first # others" and "c \<in> set xs"
  shows "compareAgents first c \<le> 0"
proof -
  have tot: "\<forall>a b. compareAgents a b \<le> 0 \<or> compareAgents b a \<le> 0"
    using compareAgents_total by blast
  have tr: "\<forall>a b c. compareAgents a b \<le> 0 \<longrightarrow> compareAgents b c \<le> 0 \<longrightarrow>
                     compareAgents a c \<le> 0"
    using compareAgents_trans by blast
  have "sorted_wrt (\<lambda>a b. compareAgents a b \<le> 0) (first # others)"
    using sorted_sort_by [OF tot tr, of xs] assms(1) by simp
  moreover have "c \<in> set (first # others)"
    using set_sort_by [of compareAgents xs] assms by simp
  moreover have "compareAgents first first \<le> 0" by (simp add: compareAgents_def)
  ultimately show ?thesis by auto
qed

lemma alone_apply [simp]: "alone k s = s"
  by (simp add: alone_def)

lemma store_before_alone [simp]: "store_before alone s k = s"
  by (induction k) simp_all

lemma agentCounts_sound:
  "c \<in> set (agentCounts F between s orgId k agents) \<Longrightarrow>
   ac_agent c \<in> set agents \<and>
   Q_count_conversations (u_id (ac_agent c)) \<notin> F \<and>
   (\<exists>j. k \<le> j \<and> j < k + length agents \<and>
      ac_openCount c = int (open_count (store_before between s j) orgId (u_id (ac_agent c)))) \<and>
   ac_openCount c < u_max_concurrent_chats (ac_agent c)"
proof (induction agents arbitrary: k)
  case Nil
  then show ?case by simp
next
  case (Cons agent agents)
  show ?case
  proof (cases "c \<in> set (agentCounts F between s orgId (Suc k) agents)")
    case True
    from Cons.IH [OF True] obtain j where
      "ac_agent c \<in> set agents" "Q_count_conversations (u_id (ac_agent c)) \<notin> F"
      "Suc k \<le> j" "j < Suc k + length agents"
      "ac_openCount c = int (open_count (store_before between s j) orgId (u_id (ac_agent c)))"
      "ac_openCount c < u_max_concurrent_chats (ac_agent c)"
      by blast
    then have "k \<le> j \<and> j < k + length (agent # agents) \<and>
      ac_openCount c = int (open_count (store_before between s j) orgId (u_id (ac_agent c)))"
      by simp
    with \<open>ac_agent c \<in> set agents\<close> \<open>Q_count_conversations (u_id (ac_agent c)) \<notin> F\<close>
      \<open>ac_openCount c < u_max_concurrent_chats (ac_agent c)\<close>
    show ?thesis by auto
  next
    case False
    with Cons.prems have
      c: "c = \<lparr>ac_agent = agent,
               ac_openCount = int (open_count (store_before between s k) orgId (u_id agent))\<rparr>"
      and nf: "Q_count_conversations (u_id agent) \<notin> F"
      and lt: "int (open_count (store_before between s k) orgId (u_id agent))
                 < u_max_concurrent_chats agent"
      by (auto simp: count_conversations_def Let_def split: if_splits sum.splits)
    have "k \<le> k \<and> k < k + length (agent # agents) \<and>
      ac_openCount c = int (open_count (store_before between s k) orgId (u_id (ac_agent c)))"
      by (simp add: c)
    with c nf lt show ?thesis by auto
  qed
qed

lemma agentCounts_sound_alone:
  assumes "c \<in> set (agentCounts F alone s orgId k agents)"
  shows "ac_agent c \<in> set agents \<and>
   Q_count_conversations (u_id (ac_agent c)) \<notin> F \<and>
   ac_openCount c = int (open_count s orgId (u_id (ac_agent c))) \<and>
   ac_openCount c < u_max_concurrent_chats (ac_agent c)"
  using agentCounts_sound [OF assms] by auto

lemma agentCounts_complete:
  "u \<in> set agents \<Longrightarrow> Q_count_conversations (u_id u) \<notin> F \<Longrightarrow>
   int (open_count s orgId (u_id u)) < u_max_concurrent_chats u \<Longrightarrow>
   \<lparr>ac_agent = u, ac_openCount = int (open_count s orgId (u_id u))\<rparr>
     \<in> set (agentCounts F alone s orgId k agents)"
  by (induction agents arbitrary: k)
     (auto simp: count_conversations_def Let_def split: if_splits sum.splits)


lemma conversations_insert_protocol_log [simp]:
  "conversations (insert_protocol_log F s row) = conversations s"
  by (simp add: insert_protocol_log_def)

lemma conversations_insert_activity_log [simp]:
  "conversations (insert_activity_log F s row) = conversations s"
  by (simp add: insert_activity_log_def)

lemma assignAgent_assigns:
  assumes "select_agents F s orgId queue = Inr agents"
      and "sort_by compareAgents (agentCounts F between s orgId (Suc 0) agents) = first # others"
      and "Q_assign_conversation \<notin> F"
  shows "conversations (assignAgent F e between s orgId conversationId queue) =
           map (assigned_to e conversationId (u_id (ac_agent first)))
             (conversations (store_before between s (Suc (length agents))))"
proof -
  have "agents \<noteq> []" using assms(2) by (auto simp: sort_by_def)
  with assms show ?thesis
    by (simp add: assignAgent_def assign_conversation_def Let_def assigned_to_def
        split: sum.splits option.splits)
qed

lemma assignAgent_cases:
  "assignAgent F e alone s orgId conversationId queue = s \<or>
   (\<exists>agents first others.
      select_agents F s orgId queue = Inr agents \<and>
      sort_by compareAgents (agentCounts F alone s orgId (Suc 0) agents) = first # others \<and>
      Q_assign_conversation \<notin> F)"
  by (auto simp: assignAgent_def assign_conversation_def Let_def
      split: sum.splits list.splits)

lemma assignAgent_none_eligible:
  "select_agents F s orgId queue = Inr agents \<Longrightarrow>
   agentCounts F between s orgId (Suc 0) agents = [] \<Longrightarrow>
   assignAgent F e between s orgId conversationId queue =
     (if agents = [] then s else store_before between s (length agents))"
  by (simp add: assignAgent_def sort_by_def)

lemma map_unchanged: "k \<notin> cv_id ` set cs \<Longrightarrow> map (assigned_to e k a) cs = cs"
  by (induction cs) (auto simp: assigned_to_def)

lemma count_after_assign_le_Suc:
  "distinct (map cv_id cs) \<Longrightarrow>
   length (filter P (map (assigned_to e k a) cs)) \<le> Suc (length (filter P cs))"
proof (induction cs)
  case Nil
  then show ?case by simp
next
  case (Cons c cs)
  show ?case
  proof (cases "cv_id c = k")
    case True
    with Cons.prems have "k \<notin> cv_id ` set cs" by auto
    then have "map (assigned_to e k a) cs = cs" by (rule map_unchanged)
    then show ?thesis by simp
  next
    case False
    with Cons show ?thesis by (simp add: assigned_to_def)
  qed
qed

lemma count_after_assign_other:
  "a \<noteq> b \<Longrightarrow>
   length (filter (\<lambda>c. cv_org_id c = orgId \<and> cv_assigned_agent_id c = Some b \<and>
                       cv_status c \<in> {CS_open, CS_waiting}) (map (assigned_to e k a) cs))
   \<le> length (filter (\<lambda>c. cv_org_id c = orgId \<and> cv_assigned_agent_id c = Some b \<and>
                       cv_status c \<in> {CS_open, CS_waiting}) cs)"
  by (induction cs) (auto simp: assigned_to_def)

lemma assignAgent_capacity:
  assumes d: "distinct (map cv_id (conversations s))"
      and inc: "open_count (assignAgent F e alone s orgId conversationId queue) orgId a
                  > open_count s orgId a"
  shows "\<exists>u \<in> set (users s). u_id u = a \<and>
           int (open_count (assignAgent F e alone s orgId conversationId queue) orgId a)
             \<le> u_max_concurrent_chats u"
proof -
  let ?s' = "assignAgent F e alone s orgId conversationId queue"
  from inc have "?s' \<noteq> s" by auto
  with assignAgent_cases [of F e s orgId conversationId queue]
  obtain agents first others where
    sel: "select_agents F s orgId queue = Inr agents" and
    srt: "sort_by compareAgents (agentCounts F alone s orgId (Suc 0) agents) = first # others" and
    nf: "Q_assign_conversation \<notin> F"
    by blast
  have "conversations ?s' =
      map (assigned_to e conversationId (u_id (ac_agent first)))
        (conversations (store_before alone s (Suc (length agents))))"
    by (rule assignAgent_assigns [OF sel srt nf])
  then have conv: "conversations ?s' =
      map (assigned_to e conversationId (u_id (ac_agent first))) (conversations s)"
    by (simp only: store_before_alone)
  have "first \<in> set (sort_by compareAgents (agentCounts F alone s orgId (Suc 0) agents))"
    by (simp add: srt)
  then have "first \<in> set (agentCounts F alone s orgId (Suc 0) agents)"
    by (simp only: set_sort_by)
  then have fst: "ac_agent first \<in> set agents"
      "ac_openCount first = int (open_count s orgId (u_id (ac_agent first)))"
      "ac_openCount first < u_max_concurrent_chats (ac_agent first)"
    using agentCounts_sound_alone by blast+
  have users: "ac_agent first \<in> set (users s)"
    using sel fst(1) by (auto simp: select_agents_def split: if_splits)
  have a: "a = u_id (ac_agent first)"
  proof (rule ccontr)
    assume "a \<noteq> u_id (ac_agent first)"
    then have ne: "u_id (ac_agent first) \<noteq> a" by simp
    have "open_count ?s' orgId a \<le> open_count s orgId a"
      unfolding open_count_def conv by (rule count_after_assign_other [OF ne])
    with inc show False by simp
  qed
  have "open_count ?s' orgId a \<le> Suc (open_count s orgId a)"
    unfolding open_count_def conv by (rule count_after_assign_le_Suc [OF d])
  with fst a have "int (open_count ?s' orgId a) \<le> u_max_concurrent_chats (ac_agent first)"
    by simp
  with users a show ?thesis by blast
qed

lemma agentCounts_excluded:
  fixes u :: crm_user
  assumes "u \<in> set agents" and "int (open_count s orgId (u_id u)) \<ge> u_max_concurrent_chats u"
  shows "u \<notin> ac_agent ` set (agentCounts F alone s orgId k agents)"
proof
  assume "u \<in> ac_agent ` set (agentCounts F alone s orgId k agents)"
  then obtain c where c: "c \<in> set (agentCounts F alone s orgId k agents)" and u: "u = ac_agent c"
    by blast
  from agentCounts_sound_alone [OF c] u assms(2) show False by simp
qed

lemma sample_select_agents:
  "select_agents {} sample_store 7 None = Inr [agent_away, agent_online]"
  by (simp add: select_agents_def sample_store_def agent_away_def agent_online_def)

lemma sample_open_count:
  "open_count sample_store 7 10 = 2" "open_count sample_store 7 11 = 5"
  by (simp_all add: open_count_def sample_store_def busy_conversation_def
      pending_conversation_def)

lemma sample_agentCounts:
  "agentCounts {} alone sample_store 7 (Suc 0) [agent_away, agent_online] =
     [\<lparr>ac_agent = agent_away, ac_openCount = 2\<rparr>, \<lparr>ac_agent = agent_online, ac_openCount = 5\<rparr>]"
  by (simp add: count_conversations_def sample_open_count agent_away_def agent_online_def)

lemma sample_sorted:
  "sort_by compareAgents
     [\<lparr>ac_agent = agent_away, ac_openCount = 2\<rparr>, \<lparr>ac_agent = agent_online, ac_openCount = 5\<rparr>]
   = [\<lparr>ac_agent = agent_online, ac_openCount = 5\<rparr>, \<lparr>ac_agent = agent_away, ac_openCount = 2\<rparr>]"
  by (simp add: sort_by_def compareAgents_def agent_away_def agent_online_def)

lemma sample_assigned_conversations:
  "conversations (assignAgent {} sample_env alone sample_store 7 60 None) =
     [busy_conversation 30 10, busy_conversation 31 10,
      busy_conversation 40 11, busy_conversation 41 11, busy_conversation 42 11,
      busy_conversation 43 11, busy_conversation 44 11,
      pending_conversation\<lparr>cv_assigned_agent_id := Some 11, cv_status := CS_open,
                            cv_updated_at := 1770854400000\<rparr>]"
proof -
  have "conversations (assignAgent {} sample_env alone sample_store 7 60 None) =
      map (assigned_to sample_env 60 (u_id (ac_agent \<lparr>ac_agent = agent_online, ac_openCount = 5\<rparr>)))
        (conversations (store_before alone sample_store (Suc (length [agent_away, agent_online]))))"
    by (rule assignAgent_assigns [OF sample_select_agents])
       (simp_all only: sample_agentCounts sample_sorted empty_iff not_False_eq_True)
  then show ?thesis
    by (simp add: sample_store_def assigned_to_def busy_conversation_def
        pending_conversation_def agent_online_def sample_env_def)
qed

lemma sample_open_count_after:
  "open_count (assignAgent {} sample_env alone sample_store 7 60 None) 7 11 = 6"
  by (simp add: open_count_def sample_assigned_conversations busy_conversation_def
      pending_conversation_def)

lemma full_select_agents:
  "select_agents {} full_store 7 None =
     Inr [agent_away\<lparr>u_max_concurrent_chats := 2\<rparr>, agent_online\<lparr>u_max_concurrent_chats := 5\<rparr>]"
  by (simp add: select_agents_def full_store_def agent_away_def agent_online_def)

lemma full_agentCounts:
  "agentCounts {} alone full_store 7 (Suc 0)
     [agent_away\<lparr>u_max_concurrent_chats := 2\<rparr>, agent_online\<lparr>u_max_concurrent_chats := 5\<rparr>] = []"
  by (simp add: count_conversations_def open_count_def full_store_def sample_store_def
      busy_conversation_def pending_conversation_def agent_away_def agent_online_def)

lemma sample_distinct: "distinct (map cv_id (conversations sample_store))"
  by (simp add: sample_store_def busy_conversation_def pending_conversation_def)

lemma tight_select_agents:
  "select_agents {} tight_store 7 None =
     Inr [agent_away, agent_online\<lparr>u_max_concurrent_chats := 6\<rparr>]"
  by (simp add: select_agents_def tight_store_def agent_away_def agent_online_def)

lemma tight_conversations:
  "conversations tight_store =
     [busy_conversation 30 10, busy_conversation 31 10,
      busy_conversation 40 11, busy_conversation 41 11, busy_conversation 42 11,
      busy_conversation 43 11, busy_conversation 44 11, pending_conversation,
      pending_conversation\<lparr>cv_id := 61, cv_contact_id := 22,
                            cv_protocol_number := Some ''20260212-00008''\<rparr>]"
  by (simp add: tight_store_def sample_store_def)

lemma tight_open_count:
  "open_count tight_store 7 10 = 2" "open_count tight_store 7 11 = 5"
  by (simp_all add: open_count_def tight_conversations busy_conversation_def
      pending_conversation_def)

lemma tight_agentCounts_alone:
  "agentCounts {} alone tight_store 7 (Suc 0)
     [agent_away, agent_online\<lparr>u_max_concurrent_chats := 6\<rparr>] =
     [\<lparr>ac_agent = agent_away, ac_openCount = 2\<rparr>,
      \<lparr>ac_agent = agent_online\<lparr>u_max_concurrent_chats := 6\<rparr>, ac_openCount = 5\<rparr>]"
  by (simp add: count_conversations_def tight_open_count agent_away_def agent_online_def)

lemma rival_apply:
  "rival (Suc 0) s = s"
  "rival (Suc (Suc 0)) s = s"
  "rival (Suc (Suc (Suc 0))) s = assignAgent {} sample_env alone s 7 61 None"
  by (simp_all add: rival_def)

lemma tight_agentCounts_rival:
  "agentCounts {} rival tight_store 7 (Suc 0)
     [agent_away, agent_online\<lparr>u_max_concurrent_chats := 6\<rparr>] =
     [\<lparr>ac_agent = agent_away, ac_openCount = 2\<rparr>,
      \<lparr>ac_agent = agent_online\<lparr>u_max_concurrent_chats := 6\<rparr>, ac_openCount = 5\<rparr>]"
  by (simp add: count_conversations_def rival_apply tight_open_count
      agent_away_def agent_online_def)

lemma tight_sorted:
  "sort_by compareAgents
     [\<lparr>ac_agent = agent_away, ac_openCount = 2\<rparr>,
      \<lparr>ac_agent = agent_online\<lparr>u_max_concurrent_chats := 6\<rparr>, ac_openCount = 5\<rparr>]
   = [\<lparr>ac_agent = agent_online\<lparr>u_max_concurrent_chats := 6\<rparr>, ac_openCount = 5\<rparr>,
      \<lparr>ac_agent = agent_away, ac_openCount = 2\<rparr>]"
  by (simp add: sort_by_def compareAgents_def agent_away_def agent_online_def)

lemma rival_conversations:
  "conversations (assignAgent {} sample_env alone tight_store 7 61 None) =
     [busy_conversation 30 10, busy_conversation 31 10,
      busy_conversation 40 11, busy_conversation 41 11, busy_conversation 42 11,
      busy_conversation 43 11, busy_conversation 44 11, pending_conversation,
      pending_conversation\<lparr>cv_id := 61, cv_contact_id := 22,
                            cv_protocol_number := Some ''20260212-00008'',
                            cv_assigned_agent_id := Some 11, cv_status := CS_open,
                            cv_updated_at := 1770854400000\<rparr>]"
proof -
  have "conversations (assignAgent {} sample_env alone tight_store 7 61 None) =
      map (assigned_to sample_env 61
             (u_id (ac_agent \<lparr>ac_agent = agent_online\<lparr>u_max_concurrent_chats := 6\<rparr>,
                              ac_openCount = 5\<rparr>)))
        (conversations (store_before alone tight_store
           (Suc (length [agent_away, agent_online\<lparr>u_max_concurrent_chats := 6\<rparr>]))))"
    by (rule assignAgent_assigns [OF tight_select_agents])
       (simp_all only: tight_agentCounts_alone tight_sorted empty_iff not_False_eq_True)
  then show ?thesis
    by (simp add: tight_conversations assigned_to_def busy_conversation_def
        pending_conversation_def agent_online_def sample_env_def)
qed

lemma interleaved_conversations:
  "conversations (assignAgent {} sample_env rival tight_store 7 60 None) =
     [busy_conversation 30 10, busy_conversation 31 10,
      busy_conversation 40 11, busy_conversation 41 11, busy_conversation 42 11,
      busy_conversation 43 11, busy_conversation 44 11,
      pending_conversation\<lparr>cv_assigned_agent_id := Some 11, cv_status := CS_open,
                            cv_updated_at := 1770854400000\<rparr>,
      pending_conversation\<lparr>cv_id := 61, cv_contact_id := 22,
                            cv_protocol_number := Some ''20260212-00008'',
                            cv_assigned_agent_id := Some 11, cv_status := CS_open,
                            cv_updated_at := 1770854400000\<rparr>]"
proof -
  have "conversations (assignAgent {} sample_env rival tight_store 7 60 None) =
      map (assigned_to sample_env 60
             (u_id (ac_agent \<lparr>ac_agent = agent_online\<lparr>u_max_concurrent_chats := 6\<rparr>,
                              ac_openCount = 5\<rparr>)))
        (conversations (store_before rival tight_store
           (Suc (length [agent_away, agent_online\<lparr>u_max_concurrent_chats := 6\<rparr>]))))"
    by (rule assignAgent_assigns [OF tight_select_agents])
       (simp_all only: tight_agentCounts_rival tight_sorted empty_iff not_False_eq_True)
  then have "conversations (assignAgent {} sample_env rival tight_store 7 60 None) =
      map (assigned_to sample_env 60 11)
        (conversations (assignAgent {} sample_env alone tight_store 7 61 None))"
    by (simp add: rival_apply agent_online_def)
  then show ?thesis
    unfolding rival_conversations
    by (simp add: assigned_to_def busy_conversation_def pending_conversation_def
        sample_env_def)
qed





text \<open>
  C5. Assignment preference ordering. When the agent query succeeds, the list of eligible
  candidates is not empty and the store accepts the update, the engine selects a
  candidate that is online if any candidate is, and that has the smallest open count
  among the candidates of its own online status; the conversation with the given id is
  written with that agent and status open. In particular an away agent with 2 open
  conversations and an online agent with 5 are sorted with the online agent first. This
  holds whatever other runs do between the calls of the run: the update is written on the
  store as they have left it.
\<close>

theorem assignAgent_preference:
  assumes "select_agents F s orgId queue = Inr agents"
      and "agentCounts F between s orgId (Suc 0) agents \<noteq> []"
      and "Q_assign_conversation \<notin> F"
  shows "(\<exists>selected \<in> set (agentCounts F between s orgId (Suc 0) agents).
           (\<forall>c \<in> set (agentCounts F between s orgId (Suc 0) agents).
              (u_status (ac_agent c) = US_online \<longrightarrow> u_status (ac_agent selected) = US_online) \<and>
              ((u_status (ac_agent c) = US_online \<longleftrightarrow> u_status (ac_agent selected) = US_online)
                 \<longrightarrow> ac_openCount selected \<le> ac_openCount c)) \<and>
           conversations (assignAgent F e between s orgId conversationId queue) =
             map (assigned_to e conversationId (u_id (ac_agent selected)))
               (conversations (store_before between s (Suc (length agents)))) \<and>
           (\<forall>c \<in> set (conversations (assignAgent F e between s orgId conversationId queue)).
              cv_id c = conversationId \<longrightarrow>
              cv_assigned_agent_id c = Some (u_id (ac_agent selected)) \<and> cv_status c = CS_open)) \<and>
         (\<forall>away online. u_status away \<noteq> US_online \<and> u_status online = US_online \<longrightarrow>
            hd (sort_by compareAgents
              [\<lparr>ac_agent = away, ac_openCount = 2\<rparr>, \<lparr>ac_agent = online, ac_openCount = 5\<rparr>])
            = \<lparr>ac_agent = online, ac_openCount = 5\<rparr>)"
proof -
  let ?cands = "agentCounts F between s orgId (Suc 0) agents"
  let ?s' = "assignAgent F e between s orgId conversationId queue"
  from assms(2) obtain first others where srt: "sort_by compareAgents ?cands = first # others"
    using sort_by_Nil_iff [of compareAgents ?cands] by (cases "sort_by compareAgents ?cands") auto
  have "first \<in> set (sort_by compareAgents ?cands)" by (simp add: srt)
  then have mem: "first \<in> set ?cands" by (simp only: set_sort_by)
  have least: "\<forall>c \<in> set ?cands.
      (u_status (ac_agent c) = US_online \<longrightarrow> u_status (ac_agent first) = US_online) \<and>
      ((u_status (ac_agent c) = US_online \<longleftrightarrow> u_status (ac_agent first) = US_online)
         \<longrightarrow> ac_openCount first \<le> ac_openCount c)"
  proof
    fix c assume "c \<in> set ?cands"
    then have "compareAgents first c \<le> 0" by (rule sort_by_first_least [OF srt])
    then show "(u_status (ac_agent c) = US_online \<longrightarrow> u_status (ac_agent first) = US_online) \<and>
      ((u_status (ac_agent c) = US_online \<longleftrightarrow> u_status (ac_agent first) = US_online)
         \<longrightarrow> ac_openCount first \<le> ac_openCount c)"
      by (auto simp: compareAgents_le)
  qed
  have conv: "conversations ?s' =
      map (assigned_to e conversationId (u_id (ac_agent first)))
        (conversations (store_before between s (Suc (length agents))))"
    by (rule assignAgent_assigns [OF assms(1) srt assms(3)])
  have written: "\<forall>c \<in> set (conversations ?s').
      cv_id c = conversationId \<longrightarrow>
      cv_assigned_agent_id c = Some (u_id (ac_agent first)) \<and> cv_status c = CS_open"
  proof (intro ballI impI)
    fix c
    assume c: "c \<in> set (conversations ?s')"
       and i: "cv_id c = conversationId"
    from c obtain c0 where "c = assigned_to e conversationId (u_id (ac_agent first)) c0"
      unfolding conv by auto
    with i show "cv_assigned_agent_id c = Some (u_id (ac_agent first)) \<and> cv_status c = CS_open"
      by (cases "cv_id c0 = conversationId") (simp_all add: assigned_to_def)
  qed
  have example: "\<forall>away online. u_status away \<noteq> US_online \<and> u_status online = US_online \<longrightarrow>
            hd (sort_by compareAgents
              [\<lparr>ac_agent = away, ac_openCount = 2\<rparr>, \<lparr>ac_agent = online, ac_openCount = 5\<rparr>])
            = \<lparr>ac_agent = online, ac_openCount = 5\<rparr>"
    by (intro allI impI) (simp add: sort_by_def compareAgents_def)
  show ?thesis
    by (rule conjI [OF bexI [OF _ mem] example]) (intro conjI least conv written)
qed

theorem assignAgent_preference_witness:
  "select_agents {} sample_store 7 None = Inr [agent_away, agent_online] \<and>
   agentCounts {} alone sample_store 7 (Suc 0) [agent_away, agent_online] =
     [\<lparr>ac_agent = agent_away, ac_openCount = 2\<rparr>, \<lparr>ac_agent = agent_online, ac_openCount = 5\<rparr>] \<and>
   map (\<lambda>c. (cv_id c, cv_status c, cv_assigned_agent_id c))
     (filter (\<lambda>c. cv_id c = 60)
        (conversations (assignAgent {} sample_env alone sample_store 7 60 None)))
     = [(60, CS_open, Some 11)] \<and>
   hd (sort_by compareAgents
        [\<lparr>ac_agent = agent_away, ac_openCount = 2\<rparr>, \<lparr>ac_agent = agent_online, ac_openCount = 5\<rparr>])
     = \<lparr>ac_agent = agent_online, ac_openCount = 5\<rparr>"
proof -
  have ne: "agentCounts {} alone sample_store 7 (Suc 0) [agent_away, agent_online] \<noteq> []"
    by (simp only: sample_agentCounts) simp
  have nf: "Q_assign_conversation \<notin> ({} :: call_site set)" by simp
  note t = assignAgent_preference [OF sample_select_agents ne nf, of sample_env 60]
  have ex: "hd (sort_by compareAgents
        [\<lparr>ac_agent = agent_away, ac_openCount = 2\<rparr>, \<lparr>ac_agent = agent_online, ac_openCount = 5\<rparr>])
     = \<lparr>ac_agent = agent_online, ac_openCount = 5\<rparr>"
    by (rule t [THEN conjunct2, THEN spec, THEN spec, THEN mp])
       (simp add: agent_away_def agent_online_def)
  have wr: "map (\<lambda>c. (cv_id c, cv_status c, cv_assigned_agent_id c))
     (filter (\<lambda>c. cv_id c = 60)
        (conversations (assignAgent {} sample_env alone sample_store 7 60 None)))
     = [(60, CS_open, Some 11)]"
    by (simp add: sample_assigned_conversations busy_conversation_def pending_conversation_def)
  show ?thesis
    by (intro conjI sample_select_agents sample_agentCounts wr ex)
qed


section \<open>Properties of contact resolution\<close>

lemma replicate_small:
  "replicate 1 c = [c]" "replicate 2 c = [c, c]" "replicate 3 c = [c, c, c]"
  "replicate 4 c = [c, c, c, c]" "replicate 5 c = [c, c, c, c, c]"
  by (simp_all add: eval_nat_numeral)

lemma sample_protocol_number: "generateProtocolNumber (2026, 2, 12) 42 = ''20260212-00042''"
  by (simp add: generateProtocolNumber_def dateStr_def padStart_def decimal.simps digit_char_def
      replicate_small)

lemma insert_contact_duplicate:
  "\<exists>c \<in> set (contacts s). ct_org_id c = ct_org_id row \<and> ct_phone c = ct_phone row \<Longrightarrow>
   \<exists>createError. insert_contact F s row = (Inl createError, s)"
  by (auto simp: insert_contact_def)

lemma insert_contact_keys:
  "contact_key_unique s \<Longrightarrow> contact_key_unique (snd (insert_contact F s row))"
  by (auto simp: insert_contact_def contact_key_unique_def Let_def)

lemma update_contact_keys:
  assumes "\<And>c. ct_org_id (updates c) = ct_org_id c \<and> ct_phone (updates c) = ct_phone c"
  shows "contact_key_unique s \<Longrightarrow> contact_key_unique (snd (update_contact F s cid updates))"
proof -
  have eq: "map ((\<lambda>c. (ct_org_id c, ct_phone c)) \<circ> (\<lambda>c. if ct_id c = cid then updates c else c))
          (contacts s)
        = map (\<lambda>c. (ct_org_id c, ct_phone c)) (contacts s)"
    by (rule map_cong) (simp_all add: assms)
  show "contact_key_unique s \<Longrightarrow> contact_key_unique (snd (update_contact F s cid updates))"
    by (simp add: update_contact_def contact_key_unique_def Let_def eq)
qed

lemma upsertContact_keys:
  assumes "contact_key_unique (between s)"
  shows "contact_key_unique (snd (upsertContact F e between s orgId phone name profilePicture))"
proof (cases "find_contact F s orgId phone")
  case (Inl findError)
  let ?row = "\<lparr>ct_id = 0, ct_org_id = orgId, ct_phone = phone, ct_name = or_null name,
                ct_profile_picture_url = or_null profilePicture,
                ct_custom_fields = [], ct_tags = [], ct_updated_at = env_now e\<rparr>"
  obtain r s2 where i: "insert_contact F (between s) ?row = (r, s2)"
    by (cases "insert_contact F (between s) ?row") auto
  have "contact_key_unique (snd (insert_contact F (between s) ?row))"
    by (rule insert_contact_keys [OF assms])
  with i have k: "contact_key_unique s2" by simp
  from Inl i have "snd (upsertContact F e between s orgId phone name profilePicture) = s2"
    by (cases r) (simp_all add: upsertContact_def Let_def)
  with k show ?thesis by simp
next
  case (Inr existing)
  let ?upd = "\<lambda>c. c\<lparr>ct_updated_at := env_now e,
                 ct_name := (if truthy name \<and> \<not> truthy (ct_name existing) then name else ct_name c),
                 ct_profile_picture_url :=
                   (if truthy profilePicture \<and> profilePicture \<noteq> ct_profile_picture_url existing
                    then profilePicture else ct_profile_picture_url c)\<rparr>"
  obtain r s2 where u: "update_contact F (between s) (ct_id existing) ?upd = (r, s2)"
    by (cases "update_contact F (between s) (ct_id existing) ?upd") auto
  have "contact_key_unique (snd (update_contact F (between s) (ct_id existing) ?upd))"
    by (rule update_contact_keys [OF _ assms]) simp
  with u have k: "contact_key_unique s2" by simp
  show ?thesis
  proof (cases "(truthy name \<and> \<not> truthy (ct_name existing)) \<or>
                (truthy profilePicture \<and> profilePicture \<noteq> ct_profile_picture_url existing)")
    case True
    have "upsertContact F e between s orgId phone name profilePicture =
            (case update_contact F (between s) (ct_id existing) ?upd of
               (Inl updateError, s2) \<Rightarrow> (Inr existing, s2)
             | (Inr updated, s2) \<Rightarrow> (Inr updated, s2))"
      by (simp only: upsertContact_def Let_def Inr sum.case if_P [OF True])
    with u have "snd (upsertContact F e between s orgId phone name profilePicture) = s2"
      by (cases r) simp_all
    with k show ?thesis by simp
  next
    case False
    have "upsertContact F e between s orgId phone name profilePicture = (Inr existing, between s)"
      by (simp only: upsertContact_def Let_def Inr sum.case if_not_P [OF False])
    then have "snd (upsertContact F e between s orgId phone name profilePicture) = between s"
      by simp
    with assms show ?thesis by simp
  qed
qed

text \<open>
  C2, as stated, fails. In the sample store the phone 5511888880000 has no contact; a
  second invocation creates it between the first one's lookup and insert; the first
  invocation then does not return that row: it throws.
\<close>

theorem upsertContact_race_counterexample:
  "find_contact {} sample_store 7 ''5511888880000'' = Inl PGRST116 \<and>
   map ct_phone (contacts (concurrent_create sample_store)) = [''5511999990000'', ''5511888880000''] \<and>
   fst (upsertContact {} sample_env concurrent_create sample_store 7 ''5511888880000''
          (Some ''Davi'') None)
     = Inl (Error ''Failed to create contact'' (UniqueViolation ''crm_contacts_org_id_phone_key''))"
  by (simp add: upsertContact_def find_contact_def insert_contact_def single_def
      concurrent_create_def sample_store_def sample_contact_def sample_env_def Let_def)

text \<open>
  C2, amended. When the lookup of contact resolution finds no row and, by the time of its
  insert, the store holds a contact with the same organisation and phone, the invocation
  adds no row (the store is left as the concurrent invocations left it, and the
  uniqueness of the key is kept, so the contact first created stays the only one) and it
  throws \<^verbatim>\<open>Failed to create contact\<close>; it does not fetch or return the existing row.
\<close>

theorem upsertContact_race_raises:
  assumes "find_contact F s orgId phone = Inl findError"
      and "\<exists>c \<in> set (contacts (between s)). ct_org_id c = orgId \<and> ct_phone c = phone"
  shows "(\<exists>createError.
            upsertContact F e between s orgId phone name profilePicture =
              (Inl (Error ''Failed to create contact'' createError), between s)) \<and>
         (contact_key_unique (between s) \<longrightarrow>
            contact_key_unique (snd (upsertContact F e between s orgId phone name profilePicture)))"
proof -
  from assms(2) obtain createError where
    "insert_contact F (between s)
        \<lparr>ct_id = 0, ct_org_id = orgId, ct_phone = phone, ct_name = or_null name,
         ct_profile_picture_url = or_null profilePicture,
         ct_custom_fields = [], ct_tags = [], ct_updated_at = env_now e\<rparr> = (Inl createError, between s)"
    using insert_contact_duplicate
      [of "between s" "\<lparr>ct_id = 0, ct_org_id = orgId, ct_phone = phone, ct_name = or_null name,
         ct_profile_picture_url = or_null profilePicture,
         ct_custom_fields = [], ct_tags = [], ct_updated_at = env_now e\<rparr>" F]
    by auto
  with assms(1) have "upsertContact F e between s orgId phone name profilePicture =
              (Inl (Error ''Failed to create contact'' createError), between s)"
    by (simp add: upsertContact_def Let_def)
  then have "\<exists>createError. upsertContact F e between s orgId phone name profilePicture =
              (Inl (Error ''Failed to create contact'' createError), between s)" ..
  moreover have "contact_key_unique (between s) \<longrightarrow>
      contact_key_unique (snd (upsertContact F e between s orgId phone name profilePicture))"
    by (intro impI) (rule upsertContact_keys)
  ultimately show ?thesis ..
qed


theorem upsertContact_race_raises_witness:
  "find_contact {} sample_store 7 ''5511888880000'' = Inl PGRST116 \<and>
   (\<exists>c \<in> set (contacts (concurrent_create sample_store)).
      ct_org_id c = 7 \<and> ct_phone c = ''5511888880000'') \<and>
   (\<exists>createError.
      upsertContact {} sample_env concurrent_create sample_store 7 ''5511888880000''
        (Some ''Davi'') None
      = (Inl (Error ''Failed to create contact'' createError), concurrent_create sample_store))"
proof -
  have f: "find_contact {} sample_store 7 ''5511888880000'' = Inl PGRST116"
    by (simp add: find_contact_def single_def sample_store_def sample_contact_def)
  have c: "\<exists>c \<in> set (contacts (concurrent_create sample_store)).
      ct_org_id c = 7 \<and> ct_phone c = ''5511888880000''"
    by (simp add: upsertContact_def find_contact_def insert_contact_def single_def
      concurrent_create_def sample_store_def sample_contact_def sample_env_def Let_def)
  note t = upsertContact_race_raises
    [where between = concurrent_create and s = sample_store and F = "{}" and e = sample_env
       and name = "Some ''Davi''" and profilePicture = None, OF f c, THEN conjunct1]
  show ?thesis by (intro conjI f c t)
qed

section \<open>Properties of conversation resolution\<close>

lemma most_recent_None: "most_recent cs = None \<longleftrightarrow> cs = []"
  by (induction cs) (auto split: option.splits)

lemma most_recent_Some:
  "most_recent cs = Some c \<Longrightarrow>
   c \<in> set cs \<and> (\<forall>c' \<in> set cs. cv_created_at c' \<le> cv_created_at c)"
proof (induction cs arbitrary: c)
  case Nil
  then show ?case by simp
next
  case (Cons a cs)
  show ?case
  proof (cases "most_recent cs")
    case None
    with Cons.prems most_recent_None [of cs] show ?thesis by simp
  next
    case (Some b)
    with Cons.IH [of b] have b: "b \<in> set cs" "\<forall>c' \<in> set cs. cv_created_at c' \<le> cv_created_at b"
      by simp_all
    show ?thesis
    proof (cases "cv_created_at a \<ge> cv_created_at b")
      case True
      with Some Cons.prems have "c = a" by simp
      with True b show ?thesis by fastforce
    next
      case False
      with Some Cons.prems have "c = b" by simp
      with False b show ?thesis by fastforce
    qed
  qed
qed

lemma find_conversation_Some:
  assumes "find_conversation F s orgId contactId = Inr (Some c)"
  shows "c \<in> set (conversations s) \<and> cv_org_id c = orgId \<and> cv_contact_id c = contactId \<and>
         cv_status c \<in> {CS_pending, CS_open, CS_waiting} \<and>
         (\<forall>c' \<in> set (conversations s).
            cv_org_id c' = orgId \<and> cv_contact_id c' = contactId \<and>
            cv_status c' \<in> {CS_pending, CS_open, CS_waiting} \<longrightarrow>
            cv_created_at c' \<le> cv_created_at c)"
proof -
  let ?active = "filter (\<lambda>c. cv_org_id c = orgId \<and> cv_contact_id c = contactId \<and>
                     cv_status c \<in> {CS_pending, CS_open, CS_waiting}) (conversations s)"
  from assms have "most_recent ?active = Some c"
    by (simp add: find_conversation_def split: if_splits)
  from most_recent_Some [OF this] show ?thesis by auto
qed

lemma find_conversation_terminal:
  assumes "\<forall>c \<in> set (conversations s). cv_org_id c = orgId \<and> cv_contact_id c = contactId \<longrightarrow>
             cv_status c \<in> {CS_resolved, CS_closed}"
  shows "find_conversation F s orgId contactId \<noteq> Inr (Some c)"
proof
  assume "find_conversation F s orgId contactId = Inr (Some c)"
  from find_conversation_Some [OF this] assms show False by auto
qed

lemma findOrCreateConversation_create:
  assumes "\<forall>c. find_conversation F s orgId contactId \<noteq> Inr (Some c)"
  shows "findOrCreateConversation F e s orgId contactId =
           (case insert_conversation F s
                   (new_conversation e orgId contactId
                      (generateProtocolNumber (env_date e) (env_random e))) of
              (Inl createError, s1) \<Rightarrow>
                (Inl (Error ''Failed to create conversation'' createError), s1)
            | (Inr created, s1) \<Rightarrow>
                (Inr created,
                 insert_protocol_log F s1
                   (conversation_created_entry orgId (cv_id created)
                      (generateProtocolNumber (env_date e) (env_random e)))))"
proof (cases "find_conversation F s orgId contactId")
  case (Inl a)
  then show ?thesis by (simp add: findOrCreateConversation_def Let_def)
next
  case (Inr b)
  with assms have "b = None" by (cases b) auto
  with Inr show ?thesis by (simp add: findOrCreateConversation_def Let_def)
qed

lemma insert_conversation_accepts:
  assumes "Q_insert_conversation \<notin> F"
      and "\<forall>c \<in> set (conversations s). cv_protocol_number c \<noteq> cv_protocol_number row"
  shows "insert_conversation F s row =
           (Inr (row\<lparr>cv_id := next_uuid s\<rparr>),
            s\<lparr>conversations := conversations s @ [row\<lparr>cv_id := next_uuid s\<rparr>],
              next_uuid := Suc (next_uuid s)\<rparr>)"
  using assms by (auto simp: insert_conversation_def Let_def)

lemma insert_conversation_Inr:
  assumes "insert_conversation F s row = (Inr created, s1)"
  shows "created = row\<lparr>cv_id := next_uuid s\<rparr> \<and>
         conversations s1 = conversations s @ [created] \<and>
         (cv_protocol_number row \<noteq> None \<longrightarrow>
            (\<forall>c \<in> set (conversations s). cv_protocol_number c \<noteq> cv_protocol_number row))"
  using assms by (auto simp: insert_conversation_def Let_def split: if_splits)

lemma insert_conversation_collision:
  assumes "cv_protocol_number row \<noteq> None"
      and "\<exists>c \<in> set (conversations s). cv_protocol_number c = cv_protocol_number row"
  shows "\<exists>createError. insert_conversation F s row = (Inl createError, s)"
  using assms by (auto simp: insert_conversation_def)

lemma findOrCreateConversation_Inr_new:
  assumes nf: "\<forall>c. find_conversation F s orgId contactId \<noteq> Inr (Some c)"
      and r: "findOrCreateConversation F e s orgId contactId = (Inr created, s')"
  shows "created = (new_conversation e orgId contactId
                      (generateProtocolNumber (env_date e) (env_random e)))\<lparr>cv_id := next_uuid s\<rparr> \<and>
         (\<forall>c \<in> set (conversations s). cv_protocol_number c \<noteq> cv_protocol_number created) \<and>
         conversations s' = conversations s @ [created] \<and>
         (Q_insert_protocol_log \<notin> F \<longrightarrow>
            protocol_log s' = protocol_log s @
              [conversation_created_entry orgId (cv_id created)
                 (generateProtocolNumber (env_date e) (env_random e))])"
proof -
  let ?pn = "generateProtocolNumber (env_date e) (env_random e)"
  let ?row = "new_conversation e orgId contactId ?pn"
  obtain x s1 where i: "insert_conversation F s ?row = (x, s1)"
    by (cases "insert_conversation F s ?row") auto
  from r findOrCreateConversation_create [OF nf, of e] i
  have x: "x = Inr created" and s': "s' = insert_protocol_log F s1
             (conversation_created_entry orgId (cv_id created) ?pn)"
    by (cases x; simp)+
  from i x have ins: "insert_conversation F s ?row = (Inr created, s1)" by simp
  from insert_conversation_Inr [OF ins]
  have c: "created = ?row\<lparr>cv_id := next_uuid s\<rparr>"
    and cs: "conversations s1 = conversations s @ [created]"
    and u: "\<forall>c \<in> set (conversations s). cv_protocol_number c \<noteq> cv_protocol_number ?row"
    by (simp_all add: new_conversation_def)
  from ins have pl: "protocol_log s1 = protocol_log s"
    by (auto simp: insert_conversation_def Let_def split: if_splits)
  from c u have u': "\<forall>c \<in> set (conversations s). cv_protocol_number c \<noteq> cv_protocol_number created"
    by simp
  from s' cs pl have "conversations s' = conversations s @ [created]"
    and "Q_insert_protocol_log \<notin> F \<longrightarrow>
            protocol_log s' = protocol_log s @ [conversation_created_entry orgId (cv_id created) ?pn]"
    by (simp_all add: insert_protocol_log_def)
  with c u' show ?thesis by blast
qed

lemma findOrCreateConversation_accepts:
  assumes nf: "\<forall>c. find_conversation F s orgId contactId \<noteq> Inr (Some c)"
      and a: "Q_insert_conversation \<notin> F"
      and u: "\<forall>c \<in> set (conversations s).
                cv_protocol_number c \<noteq> Some (generateProtocolNumber (env_date e) (env_random e))"
  shows "\<exists>created s'. findOrCreateConversation F e s orgId contactId = (Inr created, s')"
proof -
  let ?pn = "generateProtocolNumber (env_date e) (env_random e)"
  let ?row = "new_conversation e orgId contactId ?pn"
  from u have "\<forall>c \<in> set (conversations s). cv_protocol_number c \<noteq> cv_protocol_number ?row"
    by (simp add: new_conversation_def)
  from insert_conversation_accepts [OF a this] findOrCreateConversation_create [OF nf, of e]
  show ?thesis by simp
qed

lemma findOrCreateConversation_collides:
  assumes nf: "\<forall>c. find_conversation F s orgId contactId \<noteq> Inr (Some c)"
      and u: "\<exists>c \<in> set (conversations s).
                cv_protocol_number c = Some (generateProtocolNumber (env_date e) (env_random e))"
  shows "\<exists>createError. findOrCreateConversation F e s orgId contactId =
           (Inl (Error ''Failed to create conversation'' createError), s)"
proof -
  let ?pn = "generateProtocolNumber (env_date e) (env_random e)"
  let ?row = "new_conversation e orgId contactId ?pn"
  have "cv_protocol_number ?row \<noteq> None" by (simp add: new_conversation_def)
  moreover from u have "\<exists>c \<in> set (conversations s). cv_protocol_number c = cv_protocol_number ?row"
    by (simp add: new_conversation_def)
  ultimately obtain createError where "insert_conversation F s ?row = (Inl createError, s)"
    using insert_conversation_collision by blast
  with findOrCreateConversation_create [OF nf, of e] show ?thesis by simp
qed

text \<open>
  C7. The code breaks the claim. The contact's only conversation is closed and carries the
  number 20260212-00042; a message arrives on the same UTC day and the random draw is 42
  again. The find step returns nothing, as claimed, but no conversation is created: the
  number generated for the new row is the one the closed conversation carries, the insert
  violates the uniqueness of \<^verbatim>\<open>protocol_number\<close>, conversation resolution throws and
  the store is left as it was. The random number is the defect shown under C3.
\<close>

theorem findOrCreateConversation_no_fresh_conversation:
  "map cv_status (filter (\<lambda>c. cv_contact_id c = 20) (conversations closed_store)) = [CS_closed] \<and>
   findOrCreateConversation {} sample_env closed_store 7 20 =
     (Inl (Error ''Failed to create conversation''
            (UniqueViolation ''crm_conversations_protocol_number_key'')), closed_store)"
  by (simp add: findOrCreateConversation_def find_conversation_def insert_conversation_def
      new_conversation_def closed_store_def sample_store_def pending_conversation_def
      sample_env_def sample_protocol_number)

text \<open>
  What conversation resolution does for such a contact when the generated number is not
  taken. For a contact whose conversations are all resolved or closed, the find step
  (which keeps only pending, open and waiting conversations and picks one created last)
  returns none of them. Whenever conversation resolution then returns a conversation, it
  is a row the store did not hold, pending and unassigned, for this contact, with the
  generated protocol number, which differs from the number of every stored conversation,
  and the \<^verbatim>\<open>conversation_created\<close> entry is appended to the protocol log when the store
  accepts that insert. Resolution does return a conversation whenever the store accepts
  the new row and the generated number is not already stored.
\<close>

lemma findOrCreateConversation_fresh:
  assumes "\<forall>c \<in> set (conversations s). cv_org_id c = orgId \<and> cv_contact_id c = contactId \<longrightarrow>
             cv_status c \<in> {CS_resolved, CS_closed}"
  shows "(\<forall>c. find_conversation F s orgId contactId \<noteq> Inr (Some c)) \<and>
         (\<forall>s0 c. find_conversation F s0 orgId contactId = Inr (Some c) \<longrightarrow>
            c \<in> set (conversations s0) \<and> cv_status c \<in> {CS_pending, CS_open, CS_waiting} \<and>
            (\<forall>c' \<in> set (conversations s0).
               cv_org_id c' = orgId \<and> cv_contact_id c' = contactId \<and>
               cv_status c' \<in> {CS_pending, CS_open, CS_waiting} \<longrightarrow>
               cv_created_at c' \<le> cv_created_at c)) \<and>
         (\<forall>created s'. findOrCreateConversation F e s orgId contactId = (Inr created, s') \<longrightarrow>
            created \<notin> set (conversations s) \<and>
            cv_status created = CS_pending \<and> cv_assigned_agent_id created = None \<and>
            cv_org_id created = orgId \<and> cv_contact_id created = contactId \<and>
            cv_protocol_number created =
              Some (generateProtocolNumber (env_date e) (env_random e)) \<and>
            (\<forall>c \<in> set (conversations s). cv_protocol_number c \<noteq> cv_protocol_number created) \<and>
            conversations s' = conversations s @ [created] \<and>
            (Q_insert_protocol_log \<notin> F \<longrightarrow>
               protocol_log s' = protocol_log s @
                 [conversation_created_entry orgId (cv_id created)
                    (generateProtocolNumber (env_date e) (env_random e))])) \<and>
         (Q_insert_conversation \<notin> F \<and>
          (\<forall>c \<in> set (conversations s).
             cv_protocol_number c \<noteq> Some (generateProtocolNumber (env_date e) (env_random e)))
          \<longrightarrow> (\<exists>created s'. findOrCreateConversation F e s orgId contactId = (Inr created, s')))"
proof -
  have nf: "\<forall>c. find_conversation F s orgId contactId \<noteq> Inr (Some c)"
    using find_conversation_terminal [OF assms] by blast
  have fs: "\<forall>s0 c. find_conversation F s0 orgId contactId = Inr (Some c) \<longrightarrow>
            c \<in> set (conversations s0) \<and> cv_status c \<in> {CS_pending, CS_open, CS_waiting} \<and>
            (\<forall>c' \<in> set (conversations s0).
               cv_org_id c' = orgId \<and> cv_contact_id c' = contactId \<and>
               cv_status c' \<in> {CS_pending, CS_open, CS_waiting} \<longrightarrow>
               cv_created_at c' \<le> cv_created_at c)"
    using find_conversation_Some by blast
  have new: "\<forall>created s'. findOrCreateConversation F e s orgId contactId = (Inr created, s') \<longrightarrow>
            created \<notin> set (conversations s) \<and>
            cv_status created = CS_pending \<and> cv_assigned_agent_id created = None \<and>
            cv_org_id created = orgId \<and> cv_contact_id created = contactId \<and>
            cv_protocol_number created =
              Some (generateProtocolNumber (env_date e) (env_random e)) \<and>
            (\<forall>c \<in> set (conversations s). cv_protocol_number c \<noteq> cv_protocol_number created) \<and>
            conversations s' = conversations s @ [created] \<and>
            (Q_insert_protocol_log \<notin> F \<longrightarrow>
               protocol_log s' = protocol_log s @
                 [conversation_created_entry orgId (cv_id created)
                    (generateProtocolNumber (env_date e) (env_random e))])"
  proof (intro allI impI)
    fix created s'
    assume r: "findOrCreateConversation F e s orgId contactId = (Inr created, s')"
    note n = findOrCreateConversation_Inr_new [OF nf r]
    from n have c: "created = (new_conversation e orgId contactId
                      (generateProtocolNumber (env_date e) (env_random e)))\<lparr>cv_id := next_uuid s\<rparr>"
      by blast
    from n have u: "\<forall>c \<in> set (conversations s). cv_protocol_number c \<noteq> cv_protocol_number created"
      by blast
    then have "created \<notin> set (conversations s)" by blast
    moreover from c have "cv_status created = CS_pending" "cv_assigned_agent_id created = None"
      "cv_org_id created = orgId" "cv_contact_id created = contactId"
      "cv_protocol_number created = Some (generateProtocolNumber (env_date e) (env_random e))"
      by (simp_all add: new_conversation_def)
    ultimately show "created \<notin> set (conversations s) \<and>
            cv_status created = CS_pending \<and> cv_assigned_agent_id created = None \<and>
            cv_org_id created = orgId \<and> cv_contact_id created = contactId \<and>
            cv_protocol_number created =
              Some (generateProtocolNumber (env_date e) (env_random e)) \<and>
            (\<forall>c \<in> set (conversations s). cv_protocol_number c \<noteq> cv_protocol_number created) \<and>
            conversations s' = conversations s @ [created] \<and>
            (Q_insert_protocol_log \<notin> F \<longrightarrow>
               protocol_log s' = protocol_log s @
                 [conversation_created_entry orgId (cv_id created)
                    (generateProtocolNumber (env_date e) (env_random e))])"
      using n by blast
  qed
  have acc: "Q_insert_conversation \<notin> F \<and>
          (\<forall>c \<in> set (conversations s).
             cv_protocol_number c \<noteq> Some (generateProtocolNumber (env_date e) (env_random e)))
          \<longrightarrow> (\<exists>created s'. findOrCreateConversation F e s orgId contactId = (Inr created, s'))"
    using findOrCreateConversation_accepts [OF nf] by blast
  show ?thesis by (intro conjI nf fs new acc)
qed


lemma next_protocol_number:
  "generateProtocolNumber (env_date next_env) (env_random next_env) = ''20260212-00043''"
  by (simp add: next_env_def sample_env_def generateProtocolNumber_def dateStr_def padStart_def
      decimal.simps digit_char_def replicate_small)

lemma findOrCreateConversation_fresh_example:
  "map cv_status
     (filter (\<lambda>c. cv_org_id c = 7 \<and> cv_contact_id c = 20) (conversations closed_store))
     = [CS_closed] \<and>
   Some (generateProtocolNumber (env_date next_env) (env_random next_env))
     \<notin> set (map cv_protocol_number (conversations closed_store)) \<and>
   (\<exists>created s'. findOrCreateConversation {} next_env closed_store 7 20 = (Inr created, s') \<and>
      cv_status created = CS_pending \<and> cv_protocol_number created = Some ''20260212-00043'' \<and>
      conversations s' = conversations closed_store @ [created])"
proof -
  have h0: "map cv_status
     (filter (\<lambda>c. cv_org_id c = 7 \<and> cv_contact_id c = 20) (conversations closed_store))
     = [CS_closed]"
    by (simp add: closed_store_def pending_conversation_def)
  have u0: "Some (generateProtocolNumber (env_date next_env) (env_random next_env))
     \<notin> set (map cv_protocol_number (conversations closed_store))"
    by (simp add: next_protocol_number closed_store_def pending_conversation_def)
  have h: "\<forall>c \<in> set (conversations closed_store). cv_org_id c = 7 \<and> cv_contact_id c = 20 \<longrightarrow>
      cv_status c \<in> {CS_resolved, CS_closed}"
    by (simp add: closed_store_def pending_conversation_def)
  have u: "\<forall>c \<in> set (conversations closed_store).
      cv_protocol_number c \<noteq> Some (generateProtocolNumber (env_date next_env) (env_random next_env))"
    by (simp add: next_protocol_number closed_store_def pending_conversation_def)
  note t = findOrCreateConversation_fresh [OF h, of "{}" next_env]
  from t u obtain created s' where
    r: "findOrCreateConversation {} next_env closed_store 7 20 = (Inr created, s')"
    by blast
  with t have "cv_status created = CS_pending"
    "cv_protocol_number created = Some (generateProtocolNumber (env_date next_env) (env_random next_env))"
    "conversations s' = conversations closed_store @ [created]"
    by blast+
  with r have "\<exists>created s'. findOrCreateConversation {} next_env closed_store 7 20 = (Inr created, s') \<and>
      cv_status created = CS_pending \<and> cv_protocol_number created = Some ''20260212-00043'' \<and>
      conversations s' = conversations closed_store @ [created]"
    by (simp add: next_protocol_number)
  with h0 u0 show ?thesis by (intro conjI)
qed

section \<open>Properties of protocol numbers\<close>

lemma sample_no_conversation:
  "\<forall>c. find_conversation {} sample_store 7 22 \<noteq> Inr (Some c)"
  by (rule allI, rule find_conversation_terminal)
     (simp add: sample_store_def busy_conversation_def pending_conversation_def)

lemma sample_number_unused:
  "\<forall>c \<in> set (conversations sample_store).
     cv_protocol_number c \<noteq> Some (generateProtocolNumber (env_date sample_env) (env_random sample_env))"
  by (simp add: sample_env_def sample_protocol_number sample_store_def busy_conversation_def
      pending_conversation_def)

text \<open>
  C3. The code breaks the claim. On 12 February 2026 (UTC) with the random draw 42 the
  generated number is 20260212-00042. A first conversation (for contact 22) is created
  with it; a conversation for another contact (23), created the same day with the same
  draw, gets the same number, the store rejects the insert under the uniqueness of
  \<^verbatim>\<open>protocol_number\<close>, and conversation resolution throws.
\<close>

theorem protocol_number_collision:
  "generateProtocolNumber (2026, 2, 12) 42 = ''20260212-00042'' \<and>
   map_sum id cv_protocol_number (fst (findOrCreateConversation {} sample_env sample_store 7 22))
     = Inr (Some ''20260212-00042'') \<and>
   map_sum id (\<lambda>c. ()) (fst (findOrCreateConversation {} sample_env
                 (snd (findOrCreateConversation {} sample_env sample_store 7 22)) 7 23))
     = Inl (Error ''Failed to create conversation''
              (UniqueViolation ''crm_conversations_protocol_number_key''))"
proof -
  obtain created s1 where
    r: "findOrCreateConversation {} sample_env sample_store 7 22 = (Inr created, s1)"
    using findOrCreateConversation_accepts [OF sample_no_conversation _ sample_number_unused]
    by auto
  note n = findOrCreateConversation_Inr_new [OF sample_no_conversation r]
  from n have c: "cv_protocol_number created = Some ''20260212-00042''"
      "cv_contact_id created = 22"
    by (simp_all add: new_conversation_def sample_env_def sample_protocol_number)
  from n have cs: "conversations s1 = conversations sample_store @ [created]" by blast
  have nf: "\<forall>c. find_conversation {} s1 7 23 \<noteq> Inr (Some c)"
    by (rule allI, rule find_conversation_terminal)
       (simp add: cs c sample_store_def busy_conversation_def pending_conversation_def)
  have "findOrCreateConversation {} sample_env s1 7 23 =
      (Inl (Error ''Failed to create conversation''
              (UniqueViolation ''crm_conversations_protocol_number_key'')), s1)"
    using findOrCreateConversation_create [OF nf, of sample_env] c
    by (simp add: insert_conversation_def new_conversation_def cs sample_env_def
        sample_protocol_number)
  with r c show ?thesis by (simp add: sample_protocol_number)
qed


section \<open>Properties of the per-message pipeline\<close>

lemma frame_contacts_refl: "frame_contacts s s"
  by (simp add: frame_contacts_def)

lemma frame_contacts_fields:
  assumes "frame_contacts s s'"
  shows "messages s' = messages s" "conversations s' = conversations s"
    "protocol_log s' = protocol_log s" "agent_activity_log s' = agent_activity_log s"
    "users s' = users s" "organizations s' = organizations s"
proof -
  from assms have e: "s'\<lparr>contacts := contacts s, next_uuid := next_uuid s\<rparr> = s"
    by (simp add: frame_contacts_def)
  show "messages s' = messages s" using arg_cong [OF e, of messages] by simp
  show "conversations s' = conversations s" using arg_cong [OF e, of conversations] by simp
  show "protocol_log s' = protocol_log s" using arg_cong [OF e, of protocol_log] by simp
  show "agent_activity_log s' = agent_activity_log s"
    using arg_cong [OF e, of agent_activity_log] by simp
  show "users s' = users s" using arg_cong [OF e, of users] by simp
  show "organizations s' = organizations s" using arg_cong [OF e, of organizations] by simp
qed

lemma frame_update_contact: "frame_contacts s (snd (update_contact F s cid updates))"
  by (simp add: update_contact_def frame_contacts_def Let_def)

lemma frame_insert_contact: "frame_contacts s (snd (insert_contact F s row))"
  by (simp add: insert_contact_def frame_contacts_def Let_def)

lemma upsertContact_store:
  "snd (upsertContact F e between s orgId phone name profilePicture) = between s \<or>
   (\<exists>cid updates. snd (upsertContact F e between s orgId phone name profilePicture) =
      snd (update_contact F (between s) cid updates)) \<or>
   (\<exists>row. snd (upsertContact F e between s orgId phone name profilePicture) =
      snd (insert_contact F (between s) row))"
proof (cases "find_contact F s orgId phone")
  case (Inl findError)
  let ?row = "\<lparr>ct_id = 0, ct_org_id = orgId, ct_phone = phone, ct_name = or_null name,
                ct_profile_picture_url = or_null profilePicture,
                ct_custom_fields = [], ct_tags = [], ct_updated_at = env_now e\<rparr>"
  obtain r s2 where i: "insert_contact F (between s) ?row = (r, s2)"
    by (cases "insert_contact F (between s) ?row") auto
  from Inl i have "snd (upsertContact F e between s orgId phone name profilePicture) = s2"
    by (cases r) (simp_all add: upsertContact_def Let_def)
  with i have "snd (upsertContact F e between s orgId phone name profilePicture) =
      snd (insert_contact F (between s) ?row)" by simp
  then show ?thesis by blast
next
  case (Inr existing)
  let ?upd = "\<lambda>c. c\<lparr>ct_updated_at := env_now e,
                 ct_name := (if truthy name \<and> \<not> truthy (ct_name existing) then name else ct_name c),
                 ct_profile_picture_url :=
                   (if truthy profilePicture \<and> profilePicture \<noteq> ct_profile_picture_url existing
                    then profilePicture else ct_profile_picture_url c)\<rparr>"
  obtain r s2 where u: "update_contact F (between s) (ct_id existing) ?upd = (r, s2)"
    by (cases "update_contact F (between s) (ct_id existing) ?upd") auto
  show ?thesis
  proof (cases "(truthy name \<and> \<not> truthy (ct_name existing)) \<or>
                (truthy profilePicture \<and> profilePicture \<noteq> ct_profile_picture_url existing)")
    case True
    have "upsertContact F e between s orgId phone name profilePicture =
            (case update_contact F (between s) (ct_id existing) ?upd of
               (Inl updateError, s2) \<Rightarrow> (Inr existing, s2)
             | (Inr updated, s2) \<Rightarrow> (Inr updated, s2))"
      by (simp only: upsertContact_def Let_def Inr sum.case if_P [OF True])
    with u have "snd (upsertContact F e between s orgId phone name profilePicture) = s2"
      by (cases r) simp_all
    with u have "snd (upsertContact F e between s orgId phone name profilePicture) =
        snd (update_contact F (between s) (ct_id existing) ?upd)" by simp
    then show ?thesis by blast
  next
    case False
    have "upsertContact F e between s orgId phone name profilePicture = (Inr existing, between s)"
      by (simp only: upsertContact_def Let_def Inr sum.case if_not_P [OF False])
    then show ?thesis by simp
  qed
qed

lemma frame_upsertContact:
  "frame_contacts s (snd (upsertContact F e id s orgId phone name profilePicture))"
  using upsertContact_store [of F e id s orgId phone name profilePicture]
    frame_contacts_refl [of s] frame_update_contact [of s F] frame_insert_contact [of s F]
  by auto

lemma frame_resolution_refl: "frame_resolution s s"
  by (simp add: frame_resolution_def)

lemma frame_findOrCreateConversation:
  "frame_resolution s (snd (findOrCreateConversation F e s orgId contactId))"
proof (cases "\<exists>c. find_conversation F s orgId contactId = Inr (Some c)")
  case True
  then show ?thesis
    by (auto simp: findOrCreateConversation_def frame_resolution_refl)
next
  case False
  then have nf: "\<forall>c. find_conversation F s orgId contactId \<noteq> Inr (Some c)" by blast
  show ?thesis
    unfolding findOrCreateConversation_create [OF nf]
    by (auto simp: insert_conversation_def insert_protocol_log_def Let_def frame_resolution_def
        new_conversation_def conversation_created_entry_def)
qed

lemma frame_resolve_sender:
  "frame_resolution s (snd (resolve_sender F e s org message waContacts))"
proof -
  let ?name = "or_null (opt_field (find (\<lambda>c. wc_wa_id c = msg_from message) waContacts)
                          wc_profile_name)"
  obtain r1 s1 where u: "upsertContact F e id s (org_id org) (msg_from message) ?name None = (r1, s1)"
    by (cases "upsertContact F e id s (org_id org) (msg_from message) ?name None") auto
  with frame_upsertContact [of s F e "org_id org" "msg_from message" ?name None]
  have f1: "frame_contacts s s1" by simp
  note fs = frame_contacts_fields [OF f1]
  show ?thesis
  proof (cases r1)
    case (Inl err)
    with u have "snd (resolve_sender F e s org message waContacts) = s1"
      by (simp add: resolve_sender_def Let_def)
    with fs show ?thesis by (simp add: frame_resolution_def)
  next
    case (Inr contact)
    obtain r2 s2 where c: "findOrCreateConversation F e s1 (org_id org) (ct_id contact) = (r2, s2)"
      by (cases "findOrCreateConversation F e s1 (org_id org) (ct_id contact)") auto
    with frame_findOrCreateConversation [of s1 F e "org_id org" "ct_id contact"]
    have f2: "frame_resolution s1 s2" by simp
    from u Inr c have "snd (resolve_sender F e s org message waContacts) = s2"
      by (cases r2) (simp_all add: resolve_sender_def Let_def)
    with f2 fs show ?thesis by (simp add: frame_resolution_def)
  qed
qed

lemma insert_message_duplicate:
  assumes "m_whatsapp_message_id row = Some wamid"
      and "\<exists>m \<in> set (messages s). m_whatsapp_message_id m = Some wamid"
  shows "\<exists>msgError. insert_message F s row = (Inl msgError, s)"
  using assms by (auto simp: insert_message_def)

lemma materialize_media_calls:
  "materialize_media e org x cid = (mediaUrl, mediaMimeType, uploads) \<Longrightarrow>
   \<forall>call \<in> set uploads. \<exists>mid accessToken. call = UploadMedia mid accessToken cid"
  by (auto simp: materialize_media_def split: option.splits)


lemma frame_resolution_not_assigns: "frame_resolution s s' \<Longrightarrow> \<not> assigns s s'"
  by (auto simp: frame_resolution_def assigns_def)

lemma frame_resolution_stored_count:
  "frame_resolution s s' \<Longrightarrow> stored_count s' wamid = stored_count s wamid"
  by (simp add: frame_resolution_def stored_count_def)

lemma messages_update_conversation [simp]:
  "messages (update_conversation F s cid updates) = messages s"
  by (simp add: update_conversation_def)

lemma messages_insert_protocol_log [simp]:
  "messages (insert_protocol_log F s row) = messages s"
  by (simp add: insert_protocol_log_def)

lemma messages_insert_activity_log [simp]:
  "messages (insert_activity_log F s row) = messages s"
  by (simp add: insert_activity_log_def)

lemma messages_assignAgent [simp]:
  "messages (assignAgent F e alone s orgId conversationId queue) = messages s"
  by (simp add: assignAgent_def assign_conversation_def Let_def
      split: sum.splits list.splits option.splits)

lemma messages_after_message_saved:
  "messages (fst (after_message_saved F e s org message phoneNumberId conversation preview))
     = messages s"
  by (simp add: after_message_saved_def Let_def split: sum.splits)

lemma duplicate_run:
  assumes "msg_id message = Some wamid"
      and "\<exists>m \<in> set (messages s). m_whatsapp_message_id m = Some wamid"
  shows "fst (processIncomingMessage F e s org message waContacts phoneNumberId) =
           snd (resolve_sender F e s org message waContacts) \<and>
         (\<forall>call \<in> set (snd (processIncomingMessage F e s org message waContacts phoneNumberId)).
            \<exists>mid accessToken cid. call = UploadMedia mid accessToken cid)"
proof -
  obtain r s2 where rs: "resolve_sender F e s org message waContacts = (r, s2)"
    by (cases "resolve_sender F e s org message waContacts") auto
  with frame_resolve_sender [of s F e org message waContacts]
  have fr: "frame_resolution s s2" by simp
  show ?thesis
  proof (cases r)
    case (Inl err)
    with rs show ?thesis by (simp add: processIncomingMessage_def)
  next
    case (Inr cc)
    obtain contact conversation where cc: "cc = (contact, conversation)" by (cases cc) auto
    let ?x = "extractMessageContent message"
    obtain mediaUrl mediaMimeType uploads where
      mm: "materialize_media e org ?x (cv_id conversation) = (mediaUrl, mediaMimeType, uploads)"
      by (cases "materialize_media e org ?x (cv_id conversation)") auto
    let ?row = "new_message e contact conversation ?x mediaUrl mediaMimeType (msg_id message)"
    have "m_whatsapp_message_id ?row = Some wamid"
      using assms(1) by (simp add: new_message_def)
    moreover from fr assms(2) have "\<exists>m \<in> set (messages s2). m_whatsapp_message_id m = Some wamid"
      by (simp add: frame_resolution_def)
    ultimately obtain msgError where "insert_message F s2 ?row = (Inl msgError, s2)"
      using insert_message_duplicate by blast
    with rs Inr cc mm
    have "processIncomingMessage F e s org message waContacts phoneNumberId = (s2, uploads)"
      by (simp add: processIncomingMessage_def Let_def)
    with rs materialize_media_calls [OF mm] show ?thesis by auto
  qed
qed

lemma any_run:
  "(fst (processIncomingMessage F e s org message waContacts phoneNumberId) =
      snd (resolve_sender F e s org message waContacts)) \<or>
   ((\<forall>m \<in> set (messages s). msg_id message = None \<or> m_whatsapp_message_id m \<noteq> msg_id message) \<and>
    (\<exists>saved. messages (fst (processIncomingMessage F e s org message waContacts phoneNumberId)) =
        messages s @ [saved] \<and> m_whatsapp_message_id saved = msg_id message))"
proof -
  obtain r s2 where rs: "resolve_sender F e s org message waContacts = (r, s2)"
    by (cases "resolve_sender F e s org message waContacts") auto
  with frame_resolve_sender [of s F e org message waContacts]
  have fr: "frame_resolution s s2" by simp
  then have ms: "messages s2 = messages s" by (simp add: frame_resolution_def)
  show ?thesis
  proof (cases r)
    case (Inl err)
    with rs show ?thesis by (simp add: processIncomingMessage_def)
  next
    case (Inr cc)
    obtain contact conversation where cc: "cc = (contact, conversation)" by (cases cc) auto
    let ?x = "extractMessageContent message"
    obtain mediaUrl mediaMimeType uploads where
      mm: "materialize_media e org ?x (cv_id conversation) = (mediaUrl, mediaMimeType, uploads)"
      by (cases "materialize_media e org ?x (cv_id conversation)") auto
    let ?row = "new_message e contact conversation ?x mediaUrl mediaMimeType (msg_id message)"
    obtain ri s3 where im: "insert_message F s2 ?row = (ri, s3)"
      by (cases "insert_message F s2 ?row") auto
    show ?thesis
    proof (cases ri)
      case (Inl msgError)
      with im have "s3 = s2" by (auto simp: insert_message_def Let_def split: if_splits)
      with rs Inr cc mm im Inl
      have "processIncomingMessage F e s org message waContacts phoneNumberId = (s2, uploads)"
        by (simp add: processIncomingMessage_def Let_def)
      with rs show ?thesis by simp
    next
      case (Inr saved)
      with im have acc: "\<forall>m \<in> set (messages s2).
            m_whatsapp_message_id ?row = None \<or> m_whatsapp_message_id m \<noteq> m_whatsapp_message_id ?row"
        and s3: "messages s3 = messages s2 @ [saved]"
        and w: "m_whatsapp_message_id saved = m_whatsapp_message_id ?row"
        by (auto simp: insert_message_def Let_def split: if_splits)
      let ?preview = "buildMessagePreview (messageType ?x) (content ?x)"
      obtain s4 calls where am:
        "after_message_saved F e s3 org message phoneNumberId conversation ?preview = (s4, calls)"
        by (cases "after_message_saved F e s3 org message phoneNumberId conversation ?preview") auto
      with messages_after_message_saved [of F e s3 org message phoneNumberId conversation ?preview]
      have s4: "messages s4 = messages s3" by simp
      from rs \<open>r = Inr cc\<close> cc mm im Inr am
      have "processIncomingMessage F e s org message waContacts phoneNumberId =
              (s4, uploads @ calls)"
        by (simp add: processIncomingMessage_def Let_def)
      with s4 s3 ms w acc show ?thesis by (auto simp: new_message_def)
    qed
  qed
qed


lemma stored_count_pos:
  "(\<exists>m \<in> set (messages s). m_whatsapp_message_id m = Some wamid) \<longleftrightarrow> stored_count s wamid > 0"
  by (auto simp: stored_count_def filter_empty_conv)

lemma duplicate_run_frame:
  assumes "msg_id message = Some wamid"
      and "\<exists>m \<in> set (messages s). m_whatsapp_message_id m = Some wamid"
  shows "frame_resolution s (fst (processIncomingMessage F e s org message waContacts phoneNumberId))"
  using duplicate_run [OF assms, of F e org waContacts phoneNumberId]
    frame_resolve_sender [of s F e org message waContacts]
  by simp

text \<open>
  C1. Idempotent ingestion. Take a message that carries a provider message id. If a row
  with that id is already stored, processing the message stores no message row, leaves
  every conversation row as it is apart from possibly adding one new pending conversation
  without an agent, assigns no agent, writes nothing to the agent activity log, and calls
  nothing but the media upload: the rejected insert ends the pipeline before the
  assignment step. Hence, when the id is stored at most once before, processing the same
  message twice in a row (whatever the environment does in either run) leaves at most one
  row with that id, exactly one as soon as the first run stored it, and at most one of
  the two runs assigns an agent.
\<close>

theorem processIncomingMessage_idempotent:
  assumes "msg_id message = Some wamid"
  shows "((\<exists>m \<in> set (messages s). m_whatsapp_message_id m = Some wamid) \<longrightarrow>
            messages (fst (processIncomingMessage F e s org message waContacts phoneNumberId))
              = messages s \<and>
            \<not> assigns s (fst (processIncomingMessage F e s org message waContacts phoneNumberId)) \<and>
            frame_resolution s
              (fst (processIncomingMessage F e s org message waContacts phoneNumberId)) \<and>
            (\<forall>call \<in> set (snd (processIncomingMessage F e s org message waContacts phoneNumberId)).
               \<exists>mid accessToken cid. call = UploadMedia mid accessToken cid)) \<and>
         (stored_count s wamid \<le> 1 \<longrightarrow>
            stored_count
              (fst (processIncomingMessage F' e'
                 (fst (processIncomingMessage F e s org message waContacts phoneNumberId))
                 org message waContacts phoneNumberId)) wamid \<le> 1 \<and>
            \<not> (assigns s (fst (processIncomingMessage F e s org message waContacts phoneNumberId)) \<and>
               assigns (fst (processIncomingMessage F e s org message waContacts phoneNumberId))
                 (fst (processIncomingMessage F' e'
                    (fst (processIncomingMessage F e s org message waContacts phoneNumberId))
                    org message waContacts phoneNumberId))) \<and>
            (messages (fst (processIncomingMessage F e s org message waContacts phoneNumberId))
               \<noteq> messages s \<longrightarrow>
             stored_count
               (fst (processIncomingMessage F' e'
                  (fst (processIncomingMessage F e s org message waContacts phoneNumberId))
                  org message waContacts phoneNumberId)) wamid = 1))"
proof -
  let ?s1 = "fst (processIncomingMessage F e s org message waContacts phoneNumberId)"
  let ?s2 = "fst (processIncomingMessage F' e' ?s1 org message waContacts phoneNumberId)"
  let ?stored = "\<lambda>s. \<exists>m \<in> set (messages s). m_whatsapp_message_id m = Some wamid"
  have dup: "\<And>G g t. ?stored t \<Longrightarrow>
      frame_resolution t (fst (processIncomingMessage G g t org message waContacts phoneNumberId))"
    by (rule duplicate_run_frame [OF assms])
  have first: "?stored s \<longrightarrow>
      messages ?s1 = messages s \<and> \<not> assigns s ?s1 \<and> frame_resolution s ?s1 \<and>
      (\<forall>call \<in> set (snd (processIncomingMessage F e s org message waContacts phoneNumberId)).
         \<exists>mid accessToken cid. call = UploadMedia mid accessToken cid)"
  proof
    assume st: "?stored s"
    from dup [OF st] have fr: "frame_resolution s ?s1" .
    then have "messages ?s1 = messages s" by (simp add: frame_resolution_def)
    with fr frame_resolution_not_assigns [OF fr] duplicate_run [OF assms st]
    show "messages ?s1 = messages s \<and> \<not> assigns s ?s1 \<and> frame_resolution s ?s1 \<and>
      (\<forall>call \<in> set (snd (processIncomingMessage F e s org message waContacts phoneNumberId)).
         \<exists>mid accessToken cid. call = UploadMedia mid accessToken cid)"
      by blast
  qed
  have twice: "stored_count s wamid \<le> 1 \<longrightarrow>
      stored_count ?s2 wamid \<le> 1 \<and> \<not> (assigns s ?s1 \<and> assigns ?s1 ?s2) \<and>
      (messages ?s1 \<noteq> messages s \<longrightarrow> stored_count ?s2 wamid = 1)"
  proof
    assume le: "stored_count s wamid \<le> 1"
    show "stored_count ?s2 wamid \<le> 1 \<and> \<not> (assigns s ?s1 \<and> assigns ?s1 ?s2) \<and>
      (messages ?s1 \<noteq> messages s \<longrightarrow> stored_count ?s2 wamid = 1)"
    proof (cases "?stored s")
      case True
      from dup [OF True] have f1: "frame_resolution s ?s1" .
      then have m1: "messages ?s1 = messages s" by (simp add: frame_resolution_def)
      with True have "?stored ?s1" by simp
      from dup [OF this] have f2: "frame_resolution ?s1 ?s2" .
      from f1 f2 have "stored_count ?s2 wamid = stored_count s wamid"
        by (simp add: frame_resolution_stored_count)
      with le m1 frame_resolution_not_assigns [OF f1] show ?thesis by simp
    next
      case False
      then have z: "stored_count s wamid = 0" using stored_count_pos [of s wamid] by simp
      from any_run [of F e s org message waContacts phoneNumberId]
      show ?thesis
      proof
        assume "?s1 = snd (resolve_sender F e s org message waContacts)"
        with frame_resolve_sender [of s F e org message waContacts]
        have f1: "frame_resolution s ?s1" by simp
        then have m1: "messages ?s1 = messages s" by (simp add: frame_resolution_def)
        from f1 z have z1: "stored_count ?s1 wamid = 0"
          by (simp add: frame_resolution_stored_count)
        from any_run [of F' e' ?s1 org message waContacts phoneNumberId]
        have "stored_count ?s2 wamid \<le> 1"
        proof
          assume "?s2 = snd (resolve_sender F' e' ?s1 org message waContacts)"
          with frame_resolve_sender [of ?s1 F' e' org message waContacts]
          have "frame_resolution ?s1 ?s2" by simp
          with z1 show ?thesis by (simp add: frame_resolution_stored_count)
        next
          assume "(\<forall>m \<in> set (messages ?s1).
                     msg_id message = None \<or> m_whatsapp_message_id m \<noteq> msg_id message) \<and>
                  (\<exists>saved. messages ?s2 = messages ?s1 @ [saved] \<and>
                     m_whatsapp_message_id saved = msg_id message)"
          then obtain saved where "messages ?s2 = messages ?s1 @ [saved]" by blast
          then have "stored_count ?s2 wamid \<le> Suc (stored_count ?s1 wamid)"
            by (simp add: stored_count_def)
          with z1 show ?thesis by simp
        qed
        with m1 frame_resolution_not_assigns [OF f1] show ?thesis by simp
      next
        assume "(\<forall>m \<in> set (messages s).
                   msg_id message = None \<or> m_whatsapp_message_id m \<noteq> msg_id message) \<and>
                (\<exists>saved. messages ?s1 = messages s @ [saved] \<and>
                   m_whatsapp_message_id saved = msg_id message)"
        then obtain saved where sv: "messages ?s1 = messages s @ [saved]"
          "m_whatsapp_message_id saved = Some wamid"
          using assms by auto
        with z have c1: "stored_count ?s1 wamid = 1" by (simp add: stored_count_def)
        from sv have "?stored ?s1" by auto
        from dup [OF this] have f2: "frame_resolution ?s1 ?s2" .
        with c1 have "stored_count ?s2 wamid = 1" by (simp add: frame_resolution_stored_count)
        with frame_resolution_not_assigns [OF f2] show ?thesis by simp
      qed
    qed
  qed
  from first twice show ?thesis by (rule conjI)
qed


theorem processIncomingMessage_idempotent_witness:
  "msg_id (sample_message ''text'') = Some ''wamid.1'' \<and>
   (\<exists>m \<in> set (messages seen_store). m_whatsapp_message_id m = Some ''wamid.1'') \<and>
   messages (fst (processIncomingMessage {} sample_env seen_store sample_org
                    (sample_message ''text'') [] ''1055'')) = messages seen_store \<and>
   \<not> assigns seen_store (fst (processIncomingMessage {} sample_env seen_store sample_org
                    (sample_message ''text'') [] ''1055'')) \<and>
   stored_count sample_store ''wamid.1'' \<le> 1 \<and>
   stored_count
     (fst (processIncomingMessage {} sample_env
        (fst (processIncomingMessage {} sample_env sample_store sample_org
                (sample_message ''text'') [] ''1055''))
        sample_org (sample_message ''text'') [] ''1055'')) ''wamid.1'' \<le> 1"
proof -
  have i: "msg_id (sample_message ''text'') = Some ''wamid.1''"
    by (simp add: sample_message_def)
  have st: "\<exists>m \<in> set (messages seen_store). m_whatsapp_message_id m = Some ''wamid.1''"
    by (simp add: seen_store_def sent_message_def)
  have c: "stored_count sample_store ''wamid.1'' \<le> 1"
    by (simp add: stored_count_def sample_store_def sent_message_def)
  note a = processIncomingMessage_idempotent
    [OF i, of seen_store "{}" sample_env sample_org "[]" "''1055''", THEN conjunct1, THEN mp, OF st]
  note b = processIncomingMessage_idempotent
    [OF i, of sample_store "{}" sample_env sample_org "[]" "''1055''" "{}" sample_env,
     THEN conjunct2, THEN mp, OF c]
  from i st c a b show ?thesis by blast
qed

lemma sample_resolve:
  "resolve_sender {} sample_env sample_store sample_org (sample_message t) [] =
     (Inr (sample_contact, pending_conversation), sample_store)"
  by (simp add: resolve_sender_def upsertContact_def find_contact_def single_def
      findOrCreateConversation_def find_conversation_def opt_field_def Let_def
      sample_store_def sample_org_def sample_message_def sample_contact_def
      busy_conversation_def pending_conversation_def)

lemma bot_resolve:
  "resolve_sender {} sample_env bot_store sample_org (sample_message t) [] =
     (Inr (sample_contact, pending_conversation\<lparr>cv_is_bot_active := True\<rparr>), bot_store)"
  by (simp add: resolve_sender_def upsertContact_def find_contact_def single_def
      findOrCreateConversation_def find_conversation_def opt_field_def Let_def
      bot_store_def sample_store_def sample_org_def sample_message_def sample_contact_def
      pending_conversation_def)

lemma after_message_saved_bot:
  "cv_is_bot_active conversation \<Longrightarrow>
   snd (after_message_saved F e s org message phoneNumberId conversation preview) = []"
  by (simp add: after_message_saved_def Let_def split: sum.splits)

lemma after_message_saved_auto_reply:
  assumes "cv_status conversation = CS_pending" and "\<not> cv_is_bot_active conversation"
      and "toISOString_of_seconds (msg_timestamp message) = Inr t"
      and "or_null (auto_reply_message org) = Some text"
      and "or_null (access_token e org) = Some accessToken"
  shows "snd (after_message_saved F e s org message phoneNumberId conversation preview) =
           [SendText (msg_from message) text phoneNumberId accessToken,
            MarkAsRead (msg_id message) phoneNumberId accessToken]"
  using assms by (simp add: after_message_saved_def Let_def)

lemma after_message_saved_not_pending:
  "cv_status conversation \<noteq> CS_pending \<Longrightarrow>
   SendText a b c d \<notin> set (snd (after_message_saved F e s org message phoneNumberId conversation preview))"
  by (auto simp: after_message_saved_def Let_def split: sum.splits option.splits)

lemma uploads_of_calls:
  "\<forall>call \<in> set (uploads_of e org message conversation).
     \<exists>mid accessToken cid. call = UploadMedia mid accessToken cid"
  by (auto simp: uploads_of_def materialize_media_def split: option.splits)

lemma run_after_saved:
  assumes r: "resolve_sender F e s org message waContacts = (Inr (contact, conversation), s2)"
  shows "snd (processIncomingMessage F e s org message waContacts phoneNumberId) =
           uploads_of e org message conversation \<or>
         (\<exists>s3 preview.
            snd (processIncomingMessage F e s org message waContacts phoneNumberId) =
              uploads_of e org message conversation @
              snd (after_message_saved F e s3 org message phoneNumberId conversation preview))"
proof -
  let ?x = "extractMessageContent message"
  obtain mediaUrl mediaMimeType uploads where
    mm: "materialize_media e org ?x (cv_id conversation) = (mediaUrl, mediaMimeType, uploads)"
    by (cases "materialize_media e org ?x (cv_id conversation)") auto
  then have up: "uploads_of e org message conversation = uploads"
    by (simp add: uploads_of_def)
  let ?row = "new_message e contact conversation ?x mediaUrl mediaMimeType (msg_id message)"
  let ?preview = "buildMessagePreview (messageType ?x) (content ?x)"
  obtain ri s3 where im: "insert_message F s2 ?row = (ri, s3)"
    by (cases "insert_message F s2 ?row") auto
  show ?thesis
  proof (cases ri)
    case (Inl msgError)
    with r mm im
    have "snd (processIncomingMessage F e s org message waContacts phoneNumberId) = uploads"
      by (simp add: processIncomingMessage_def Let_def)
    with up show ?thesis by simp
  next
    case (Inr saved)
    with r mm im
    have "snd (processIncomingMessage F e s org message waContacts phoneNumberId) =
            uploads @ snd (after_message_saved F e s3 org message phoneNumberId conversation ?preview)"
      by (simp add: processIncomingMessage_def Let_def split: prod.splits)
    with up show ?thesis by blast
  qed
qed

lemma run_saved:
  assumes r: "resolve_sender F e s org message waContacts = (Inr (contact, conversation), s2)"
      and a: "Q_insert_message \<notin> F"
      and u: "msg_id message = None \<or>
              (\<forall>m \<in> set (messages s). m_whatsapp_message_id m \<noteq> msg_id message)"
  shows "\<exists>uploads s3 preview.
            snd (processIncomingMessage F e s org message waContacts phoneNumberId) =
              uploads @ snd (after_message_saved F e s3 org message phoneNumberId conversation preview)"
proof -
  let ?x = "extractMessageContent message"
  obtain mediaUrl mediaMimeType uploads where
    mm: "materialize_media e org ?x (cv_id conversation) = (mediaUrl, mediaMimeType, uploads)"
    by (cases "materialize_media e org ?x (cv_id conversation)") auto
  let ?row = "new_message e contact conversation ?x mediaUrl mediaMimeType (msg_id message)"
  let ?preview = "buildMessagePreview (messageType ?x) (content ?x)"
  from frame_resolve_sender [of s F e org message waContacts] r
  have ms: "messages s2 = messages s" by (simp add: frame_resolution_def)
  have w: "m_whatsapp_message_id ?row = msg_id message" by (simp add: new_message_def)
  from a u ms w obtain saved s3 where im: "insert_message F s2 ?row = (Inr saved, s3)"
    by (auto simp: insert_message_def Let_def)
  with r mm
  have "snd (processIncomingMessage F e s org message waContacts phoneNumberId) =
          uploads @ snd (after_message_saved F e s3 org message phoneNumberId conversation ?preview)"
    by (simp add: processIncomingMessage_def Let_def split: prod.splits)
  then show ?thesis by blast
qed

text \<open>
  C10, as stated, fails. The contact's conversation is pending when it is fetched, the
  organisation has an auto-reply text and a token, the message is new and is saved, but
  the conversation is handed to the bot: the pipeline returns at step 7 and no call at
  all is made, so no auto-reply is attempted.
\<close>

theorem auto_reply_counterexample:
  "resolve_sender {} sample_env bot_store sample_org (sample_message ''text'') [] =
     (Inr (sample_contact, pending_conversation\<lparr>cv_is_bot_active := True\<rparr>), bot_store) \<and>
   cv_status (pending_conversation\<lparr>cv_is_bot_active := True\<rparr>) = CS_pending \<and>
   or_null (auto_reply_message sample_org) = Some ''We will be right with you'' \<and>
   or_null (access_token sample_env sample_org) = Some ''token'' \<and>
   snd (processIncomingMessage {} sample_env bot_store sample_org (sample_message ''text'') []
          ''1055'') = []"
proof -
  have "uploads_of sample_env sample_org (sample_message ''text'')
          (pending_conversation\<lparr>cv_is_bot_active := True\<rparr>) = []"
    by (simp add: uploads_of_def materialize_media_def extractMessageContent_def
        sample_message_def)
  with run_after_saved [OF bot_resolve, of "''text''" "''1055''"]
  have "snd (processIncomingMessage {} sample_env bot_store sample_org (sample_message ''text'') []
          ''1055'') = []"
    by (auto simp: after_message_saved_bot)
  moreover have "cv_status (pending_conversation\<lparr>cv_is_bot_active := True\<rparr>) = CS_pending"
    by (simp add: pending_conversation_def)
  moreover have "or_null (auto_reply_message sample_org) = Some ''We will be right with you''"
    by (simp add: sample_org_def)
  moreover have "or_null (access_token sample_env sample_org) = Some ''token''"
    by (simp add: sample_org_def access_token_def)
  ultimately show ?thesis
    using bot_resolve [of "''text''"] by (intro conjI)
qed

text \<open>
  C10, amended. The auto-reply is gated on the status the conversation had when
  conversation resolution returned it, not on the conversation being new and not on the
  status in the store. Whenever the message is saved (the store accepts the insert, so
  its provider id is not stored yet), its timestamp is a valid date, the returned
  conversation is pending and not handed to the bot, and the organisation has an
  auto-reply text and a token, the auto-reply is sent to the sender, whatever the
  assignment step did to the conversation in between and whether or not the conversation
  existed before. Whenever the returned conversation is not pending, no auto-reply is
  sent.
\<close>

theorem auto_reply_gated_on_fetched_status:
  assumes "resolve_sender F e s org message waContacts = (Inr (contact, conversation), s2)"
  shows "(cv_status conversation = CS_pending \<and> \<not> cv_is_bot_active conversation \<and>
          Q_insert_message \<notin> F \<and>
          (msg_id message = None \<or>
           (\<forall>m \<in> set (messages s). m_whatsapp_message_id m \<noteq> msg_id message)) \<and>
          toISOString_of_seconds (msg_timestamp message) \<noteq> Inl RangeError \<and>
          or_null (auto_reply_message org) = Some text \<and>
          or_null (access_token e org) = Some accessToken
          \<longrightarrow> SendText (msg_from message) text phoneNumberId accessToken
                \<in> set (snd (processIncomingMessage F e s org message waContacts phoneNumberId))) \<and>
         (cv_status conversation \<noteq> CS_pending
          \<longrightarrow> (\<forall>a b c d. SendText a b c d
                \<notin> set (snd (processIncomingMessage F e s org message waContacts phoneNumberId))))"
proof (intro conjI impI)
  assume h: "cv_status conversation = CS_pending \<and> \<not> cv_is_bot_active conversation \<and>
          Q_insert_message \<notin> F \<and>
          (msg_id message = None \<or>
           (\<forall>m \<in> set (messages s). m_whatsapp_message_id m \<noteq> msg_id message)) \<and>
          toISOString_of_seconds (msg_timestamp message) \<noteq> Inl RangeError \<and>
          or_null (auto_reply_message org) = Some text \<and>
          or_null (access_token e org) = Some accessToken"
  then obtain t where ts: "toISOString_of_seconds (msg_timestamp message) = Inr t"
    by (cases "toISOString_of_seconds (msg_timestamp message)")
       (auto simp: toISOString_of_seconds_def split: option.splits if_splits)
  from h run_saved [OF assms, of phoneNumberId] obtain uploads s3 preview where
    c: "snd (processIncomingMessage F e s org message waContacts phoneNumberId) =
          uploads @ snd (after_message_saved F e s3 org message phoneNumberId conversation preview)"
    by blast
  from h ts have "snd (after_message_saved F e s3 org message phoneNumberId conversation preview) =
           [SendText (msg_from message) text phoneNumberId accessToken,
            MarkAsRead (msg_id message) phoneNumberId accessToken]"
    by (intro after_message_saved_auto_reply) simp_all
  with c show "SendText (msg_from message) text phoneNumberId accessToken
                \<in> set (snd (processIncomingMessage F e s org message waContacts phoneNumberId))"
    by simp
next
  assume np: "cv_status conversation \<noteq> CS_pending"
  show "\<forall>a b c d. SendText a b c d
          \<notin> set (snd (processIncomingMessage F e s org message waContacts phoneNumberId))"
  proof (intro allI)
    fix a b c d
    from run_after_saved [OF assms, of phoneNumberId]
    show "SendText a b c d
          \<notin> set (snd (processIncomingMessage F e s org message waContacts phoneNumberId))"
      using after_message_saved_not_pending [OF np] uploads_of_calls [of e org message conversation]
      by (elim disjE exE) auto
  qed
qed


lemma open_resolve:
  "resolve_sender {} sample_env open_store sample_org (sample_message t) [] =
     (Inr (sample_contact,
           pending_conversation\<lparr>cv_status := CS_open, cv_assigned_agent_id := Some 11\<rparr>),
      open_store)"
  by (simp add: resolve_sender_def upsertContact_def find_contact_def single_def
      findOrCreateConversation_def find_conversation_def opt_field_def Let_def
      open_store_def sample_store_def sample_org_def sample_message_def sample_contact_def
      pending_conversation_def)

lemma sample_run_store:
  "map (\<lambda>c. (cv_id c, cv_status c, cv_assigned_agent_id c))
     (filter (\<lambda>c. cv_id c = 60)
        (conversations (fst (processIncomingMessage {} sample_env sample_store sample_org
                               (sample_message ''text'') [] ''1055''))))
   = [(60, CS_open, Some 11)]"
  apply (simp only: processIncomingMessage_def sample_resolve)
  apply (simp add: Let_def materialize_media_def extractMessageContent_def sample_message_def
      insert_message_def new_message_def after_message_saved_def toISOString_of_seconds_def
      update_conversation_def assignAgent_def select_agents_def agentCounts.simps
      count_conversations_def open_count_def sort_by_def compareAgents_def
      assign_conversation_def assigned_to_def select_protocol_number_def single_def
      insert_protocol_log_def insert_activity_log_def
      sample_store_def sample_org_def sample_env_def sample_contact_def sent_message_def
      agent_away_def agent_online_def busy_conversation_def pending_conversation_def)
  done


theorem auto_reply_gated_on_fetched_status_witness:
  "resolve_sender {} sample_env sample_store sample_org (sample_message ''text'') [] =
     (Inr (sample_contact, pending_conversation), sample_store) \<and>
   pending_conversation \<in> set (conversations sample_store) \<and>
   SendText ''5511999990000'' ''We will be right with you'' ''1055'' ''token''
     \<in> set (snd (processIncomingMessage {} sample_env sample_store sample_org
                   (sample_message ''text'') [] ''1055'')) \<and>
   map (\<lambda>c. (cv_id c, cv_status c, cv_assigned_agent_id c))
     (filter (\<lambda>c. cv_id c = 60)
        (conversations (fst (processIncomingMessage {} sample_env sample_store sample_org
                               (sample_message ''text'') [] ''1055''))))
     = [(60, CS_open, Some 11)] \<and>
   (\<forall>a b c d. SendText a b c d
      \<notin> set (snd (processIncomingMessage {} sample_env open_store sample_org
                    (sample_message ''text'') [] ''1055'')))"
proof -
  have pre: "pending_conversation \<in> set (conversations sample_store)"
    by (simp add: sample_store_def)
  have h: "cv_status pending_conversation = CS_pending \<and>
      \<not> cv_is_bot_active pending_conversation \<and>
      Q_insert_message \<notin> ({} :: call_site set) \<and>
      (msg_id (sample_message ''text'') = None \<or>
       (\<forall>m \<in> set (messages sample_store).
          m_whatsapp_message_id m \<noteq> msg_id (sample_message ''text''))) \<and>
      toISOString_of_seconds (msg_timestamp (sample_message ''text'')) \<noteq> Inl RangeError \<and>
      or_null (auto_reply_message sample_org) = Some ''We will be right with you'' \<and>
      or_null (access_token sample_env sample_org) = Some ''token''"
    by (simp add: pending_conversation_def sample_message_def sample_store_def sent_message_def
        toISOString_of_seconds_def sample_org_def access_token_def)
  have sent: "SendText (msg_from (sample_message ''text'')) ''We will be right with you'' ''1055''
       ''token''
     \<in> set (snd (processIncomingMessage {} sample_env sample_store sample_org
                   (sample_message ''text'') [] ''1055''))"
    by (rule auto_reply_gated_on_fetched_status
          [OF sample_resolve, THEN conjunct1, THEN mp, OF h])
  then have sent': "SendText ''5511999990000'' ''We will be right with you'' ''1055'' ''token''
     \<in> set (snd (processIncomingMessage {} sample_env sample_store sample_org
                   (sample_message ''text'') [] ''1055''))"
    by (simp add: sample_message_def)
  have np: "cv_status (pending_conversation\<lparr>cv_status := CS_open, cv_assigned_agent_id := Some 11\<rparr>)
      \<noteq> CS_pending"
    by simp
  have none: "\<forall>a b c d. SendText a b c d
      \<notin> set (snd (processIncomingMessage {} sample_env open_store sample_org
                    (sample_message ''text'') [] ''1055''))"
    by (rule auto_reply_gated_on_fetched_status
          [OF open_resolve, THEN conjunct2, THEN mp, OF np])
  show ?thesis
    by (intro conjI sample_resolve pre sent' sample_run_store none)
qed

end
